theory Spec2Isabelle
  imports Main "HOL-Library.Word"
begin

section \<open>Visual-script node user data (VisualScriptNodeUserData.h)\<close>

text \<open>
  A shallow embedding of \<^verbatim>\<open>Code/EnginePlugins/VisualScriptPlugin/Runtime/VisualScriptNodeUserData.h\<close>:
  the four payload structs \<^verbatim>\<open>NodeUserData_Type\<close>, \<^verbatim>\<open>NodeUserData_TypeAndProperty\<close>,
  \<^verbatim>\<open>NodeUserData_Comparison\<close> and \<^verbatim>\<open>NodeUserData_StartCoroutine\<close> with their
  \<^verbatim>\<open>Serialize\<close>, \<^verbatim>\<open>Deserialize\<close> and \<^verbatim>\<open>ToString\<close> functions, the table
  \<^verbatim>\<open>s_TypeToUserDataContexts\<close> and \<^verbatim>\<open>GetUserDataContext\<close>.

  The header uses declarations of other headers (streams, reflection, the node description,
  the graph node). Each of them enters the embedding as a parameter, or as a definition
  whose comment says that it is modelled from the specification.
\<close>

subsection \<open>Results and streams\<close>

type_synonym byte = "8 word"

text \<open>\<^verbatim>\<open>ezResult\<close> has two values; \<^verbatim>\<open>EZ_SUCCEED_OR_RETURN(x)\<close> returns \<^verbatim>\<open>EZ_FAILURE\<close>
  from the enclosing function when \<^verbatim>\<open>x\<close> failed.\<close>

datatype ezResult = EZ_SUCCESS | EZ_FAILURE

text \<open>
  The stream primitives (\<^verbatim>\<open>ezStreamWriter::operator<<\<close>, \<^verbatim>\<open>ezStreamReader::operator>>\<close>)
  are declared outside this header, so they are parameters: how a string and how an enum's
  stored scalar are turned into bytes, and how each is read back from the front of the
  remaining input. A writer stream is the list of bytes written so far, a reader stream
  the list of bytes not yet consumed. The operators return the stream, not a result, so
  in the header no read and no write can report a failure.
\<close>

record stream_prims =
  put_string :: "string \<Rightarrow> byte list"
  get_string :: "byte list \<Rightarrow> string \<times> byte list"
  put_enum :: "byte \<Rightarrow> byte list"
  get_enum :: "byte list \<Rightarrow> byte \<times> byte list"

subsection \<open>Reflection\<close>

text \<open>
  \<^verbatim>\<open>ezAbstractProperty\<close> and \<^verbatim>\<open>ezRTTI\<close> as far as the header reads them: a property has
  a name (\<^verbatim>\<open>GetPropertyName\<close>), a type has a name (\<^verbatim>\<open>GetTypeName\<close>), a list of
  properties (\<^verbatim>\<open>GetProperties\<close>) and a list of functions (\<^verbatim>\<open>GetFunctions\<close>).
  \<open>m_Identity\<close> stands for the object's address: two properties of one name are still
  two objects. A pointer is an \<open>option\<close>, \<^verbatim>\<open>nullptr\<close> is \<open>None\<close>.
\<close>

record ezAbstractProperty =
  m_szPropertyName :: string
  m_Identity :: nat

record ezRTTI =
  m_szTypeName :: string
  m_Properties :: "ezAbstractProperty list"
  m_Functions :: "ezAbstractProperty list"

text \<open>
  The C++ types that the template parameter \<^verbatim>\<open>T\<close> of \<^verbatim>\<open>ReadProperty\<close> can be bound to.
  \<^verbatim>\<open>std::is_same<T, U>::value\<close> is equality of types.
\<close>

datatype cpp_type = Class string | Pointer cpp_type | Const cpp_type

text \<open>
  What the header takes from the reflection system: \<^verbatim>\<open>ezRTTI::FindTypeByName\<close>, the
  element types of the arrays that \<^verbatim>\<open>GetProperties()\<close> and \<^verbatim>\<open>GetFunctions()\<close> return
  (from them \<^verbatim>\<open>T\<close> is deduced), and \<^verbatim>\<open>ezReflectionUtils::EnumerationToString\<close> in
  mode \<^verbatim>\<open>ValueNameOnly\<close> for the two enums.
\<close>

record reflection =
  FindTypeByName :: "string \<Rightarrow> ezRTTI option"
  PropertiesElementType :: cpp_type
  FunctionsElementType :: cpp_type
  ComparisonOperatorToString :: "byte \<Rightarrow> string"
  CoroutineCreationModeToString :: "byte \<Rightarrow> string"

subsection \<open>The authoring node description\<close>

text \<open>
  \<^verbatim>\<open>ezVisualScriptNodeDescription\<close>, with the four members that the header reads. An
  \<^verbatim>\<open>ezEnum\<close> holds the scalar of its storage type; any value of that scalar can be held.
\<close>

record ezVisualScriptNodeDescription =
  m_sTargetTypeName :: string
  m_sTargetPropertyName :: string
  m_ComparisonOperator :: byte
  m_CoroutineCreationMode :: byte

subsection \<open>Sizes and alignments\<close>

text \<open>
  \<^verbatim>\<open>sizeof\<close> and \<^verbatim>\<open>EZ_ALIGNMENT_OF\<close> of the four structs are fixed by the compiler for
  the target platform, so the functions take a platform; the platforms that the layout of
  the structs yields are computed further below. The header's three \<^verbatim>\<open>static_assert\<close>s
  on \<^verbatim>\<open>sizeof\<close> reject a platform at build time.
\<close>

record platform =
  EZ_PLATFORM_32BIT :: bool
  sizeof_NodeUserData_Type :: nat
  alignof_NodeUserData_Type :: nat
  sizeof_NodeUserData_TypeAndProperty :: nat
  alignof_NodeUserData_TypeAndProperty :: nat
  sizeof_NodeUserData_Comparison :: nat
  alignof_NodeUserData_Comparison :: nat
  sizeof_NodeUserData_StartCoroutine :: nat
  alignof_NodeUserData_StartCoroutine :: nat

definition static_assert_sizes :: "platform \<Rightarrow> bool" where
  "static_assert_sizes P =
     (sizeof_NodeUserData_Type P = 8 \<and>
      sizeof_NodeUserData_TypeAndProperty P = 16 \<and>
      sizeof_NodeUserData_StartCoroutine P = 16)"

subsection \<open>Serialize\<close>

text \<open>The three reference parameters of a \<^verbatim>\<open>SerializeFunction\<close>.\<close>

record ser_state =
  inout_stream_w :: "byte list"
  out_uiSize :: nat
  out_uiAlignment :: nat

type_synonym SerializeFunction =
  "platform \<Rightarrow> stream_prims \<Rightarrow> ezVisualScriptNodeDescription \<Rightarrow> ser_state \<Rightarrow> ezResult \<times> ser_state"

definition NodeUserData_Type_Serialize :: SerializeFunction where
  "NodeUserData_Type_Serialize P io nodeDesc s =
     (let s = s\<lparr>inout_stream_w := inout_stream_w s @ put_string io (m_sTargetTypeName nodeDesc)\<rparr>;
          s = s\<lparr>out_uiSize := sizeof_NodeUserData_Type P\<rparr>;
          s = s\<lparr>out_uiAlignment := alignof_NodeUserData_Type P\<rparr>
      in (EZ_SUCCESS, s))"

definition NodeUserData_TypeAndProperty_Serialize :: SerializeFunction where
  "NodeUserData_TypeAndProperty_Serialize P io nodeDesc s =
     (case NodeUserData_Type_Serialize P io nodeDesc s of
        (EZ_FAILURE, s) \<Rightarrow> (EZ_FAILURE, s)
      | (EZ_SUCCESS, s) \<Rightarrow>
          (let s = s\<lparr>inout_stream_w := inout_stream_w s @ put_string io (m_sTargetPropertyName nodeDesc)\<rparr>;
               s = s\<lparr>out_uiSize := sizeof_NodeUserData_TypeAndProperty P\<rparr>;
               s = s\<lparr>out_uiAlignment := alignof_NodeUserData_TypeAndProperty P\<rparr>
           in (EZ_SUCCESS, s)))"

definition NodeUserData_Comparison_Serialize :: SerializeFunction where
  "NodeUserData_Comparison_Serialize P io nodeDesc s =
     (let compOp = m_ComparisonOperator nodeDesc;
          s = s\<lparr>inout_stream_w := inout_stream_w s @ put_enum io compOp\<rparr>;
          s = s\<lparr>out_uiSize := sizeof_NodeUserData_Comparison P\<rparr>;
          s = s\<lparr>out_uiAlignment := alignof_NodeUserData_Comparison P\<rparr>
      in (EZ_SUCCESS, s))"

definition NodeUserData_StartCoroutine_Serialize :: SerializeFunction where
  "NodeUserData_StartCoroutine_Serialize P io nodeDesc s =
     (case NodeUserData_Type_Serialize P io nodeDesc s of
        (EZ_FAILURE, s) \<Rightarrow> (EZ_FAILURE, s)
      | (EZ_SUCCESS, s) \<Rightarrow>
          (let s = s\<lparr>inout_stream_w := inout_stream_w s @ put_enum io (m_CoroutineCreationMode nodeDesc)\<rparr>;
               s = s\<lparr>out_uiSize := sizeof_NodeUserData_StartCoroutine P\<rparr>;
               s = s\<lparr>out_uiAlignment := alignof_NodeUserData_StartCoroutine P\<rparr>
           in (EZ_SUCCESS, s)))"

subsection \<open>The payload structs\<close>

text \<open>
  The resolved records. \<^verbatim>\<open>NodeUserData_TypeAndProperty\<close> and
  \<^verbatim>\<open>NodeUserData_StartCoroutine\<close> derive from \<^verbatim>\<open>NodeUserData_Type\<close>. The members
  \<^verbatim>\<open>m_uiPadding\<close> of 32-bit builds carry no value and are part of \<open>sizeof\<close> only.
  The operator member of \<^verbatim>\<open>NodeUserData_Comparison\<close> is primed: the node description has
  a member of the same name.
\<close>

record NodeUserData_Type =
  m_pType :: "ezRTTI option"

record NodeUserData_TypeAndProperty = NodeUserData_Type +
  m_pProperty :: "ezAbstractProperty option"

record NodeUserData_Comparison =
  m_ComparisonOperator' :: byte

record NodeUserData_StartCoroutine = NodeUserData_Type +
  m_CreationMode :: byte

datatype user_data =
  UserData_Type NodeUserData_Type
| UserData_TypeAndProperty NodeUserData_TypeAndProperty
| UserData_Comparison NodeUserData_Comparison
| UserData_StartCoroutine NodeUserData_StartCoroutine

subsection \<open>The graph node and the additional-data buffer\<close>

text \<open>
  Modelled from the spec: \<^verbatim>\<open>ezVisualScriptGraphDescription::Node\<close> and its
  \<^verbatim>\<open>SetUserData\<close> are declared in \<^verbatim>\<open>VisualScript.h\<close>, which is not among the sources.
  The specification (Extension Arena Placement): given a freshly constructed payload
  value, its byte size and its required alignment, append it to the arena at the next
  offset satisfying that alignment, padding as needed; the offset and the size are stored
  on the node record. The arena is the cursor \<^verbatim>\<open>inout_pAdditionalData\<close> together with
  the records placed so far, each with its offset.
\<close>

record Node =
  m_UserDataOffset :: nat
  m_UserDataByteSize :: nat

record arena =
  m_Cursor :: nat
  m_Placed :: "(nat \<times> user_data) list"

definition align_up :: "nat \<Rightarrow> nat \<Rightarrow> nat" where
  "align_up off a = (if a = 0 then off else ((off + a - 1) div a) * a)"

definition SetUserData :: "nat \<Rightarrow> nat \<Rightarrow> user_data \<Rightarrow> Node \<Rightarrow> arena \<Rightarrow> Node \<times> arena" where
  "SetUserData uiSize uiAlignment data node a =
     (let off = align_up (m_Cursor a) uiAlignment
      in (node\<lparr>m_UserDataOffset := off, m_UserDataByteSize := uiSize\<rparr>,
          a\<lparr>m_Cursor := off + uiSize, m_Placed := m_Placed a @ [(off, data)]\<rparr>))"

subsection \<open>Deserialize\<close>

text \<open>
  The three reference parameters of a \<^verbatim>\<open>DeserializeFunction\<close>, and the error log that
  \<^verbatim>\<open>ezLog::Error\<close> appends to, one formatted message per call.
\<close>

record deser_state =
  ref_node :: Node
  inout_stream_r :: "byte list"
  inout_pAdditionalData :: arena
  ezLog :: "string list"

type_synonym DeserializeFunction =
  "platform \<Rightarrow> stream_prims \<Rightarrow> reflection \<Rightarrow> deser_state \<Rightarrow> ezResult \<times> deser_state"

definition quote :: string where
  "quote = [CHR 0x27]"

definition NodeUserData_Type_ReadType ::
  "stream_prims \<Rightarrow> reflection \<Rightarrow> deser_state \<Rightarrow> ezResult \<times> ezRTTI option \<times> deser_state" where
  "NodeUserData_Type_ReadType io R s =
     (let (sTypeName, rest) = get_string io (inout_stream_r s);
          s = s\<lparr>inout_stream_r := rest\<rparr>;
          out_pType = FindTypeByName R sTypeName
      in if out_pType = None
         then (EZ_FAILURE, out_pType,
               s\<lparr>ezLog := ezLog s @ [''Unknown type '' @ quote @ sTypeName @ quote]\<rparr>)
         else (EZ_SUCCESS, out_pType, s))"

definition NodeUserData_Type_Deserialize :: DeserializeFunction where
  "NodeUserData_Type_Deserialize P io R s =
     (case NodeUserData_Type_ReadType io R s of
        (EZ_FAILURE, pType, s) \<Rightarrow> (EZ_FAILURE, s)
      | (EZ_SUCCESS, pType, s) \<Rightarrow>
          (let userData = \<lparr>m_pType = pType\<rparr>;
               (node, a) = SetUserData (sizeof_NodeUserData_Type P) (alignof_NodeUserData_Type P)
                             (UserData_Type userData) (ref_node s) (inout_pAdditionalData s)
           in (EZ_SUCCESS, s\<lparr>ref_node := node, inout_pAdditionalData := a\<rparr>)))"

text \<open>The loop of \<^verbatim>\<open>ReadProperty\<close>: the first element whose name equals \<^verbatim>\<open>sPropName\<close>
  is taken and the loop is left; \<^verbatim>\<open>out_pProp\<close> stays \<^verbatim>\<open>nullptr\<close> otherwise.\<close>

fun ReadProperty_loop :: "string \<Rightarrow> ezAbstractProperty list \<Rightarrow> ezAbstractProperty option" where
  "ReadProperty_loop sPropName [] = None"
| "ReadProperty_loop sPropName (pProp # properties) =
     (if sPropName = m_szPropertyName pProp then Some pProp
      else ReadProperty_loop sPropName properties)"

text \<open>\<^verbatim>\<open>ReadProperty<T>\<close>; \<^verbatim>\<open>T\<close> is the element type of the array passed in.\<close>

definition NodeUserData_TypeAndProperty_ReadProperty ::
  "cpp_type \<Rightarrow> stream_prims \<Rightarrow> ezRTTI \<Rightarrow> ezAbstractProperty list \<Rightarrow> deser_state
   \<Rightarrow> ezResult \<times> ezAbstractProperty option \<times> deser_state" where
  "NodeUserData_TypeAndProperty_ReadProperty T io pType properties s =
     (let (sPropName, rest) = get_string io (inout_stream_r s);
          s = s\<lparr>inout_stream_r := rest\<rparr>;
          out_pProp = ReadProperty_loop sPropName properties
      in if out_pProp = None
         then (EZ_FAILURE, out_pProp,
               s\<lparr>ezLog := ezLog s @
                  [(if T = Class ''ezAbstractFunctionProperty'' then ''Function'' else ''Property'')
                   @ '' '' @ quote @ sPropName @ quote
                   @ '' not found on type '' @ quote @ m_szTypeName pType @ quote]\<rparr>)
         else (EZ_SUCCESS, out_pProp, s))"

text \<open>
  \<^verbatim>\<open>Deserialize<PropIsFunction>\<close>. After a successful \<^verbatim>\<open>ReadType\<close> the type pointer is
  dereferenced; \<^verbatim>\<open>ReadType\<close> succeeds with a non-null pointer only (lemma
  \<open>ReadType_success\<close> below), so the branch of a null pointer is never taken.
\<close>

definition NodeUserData_TypeAndProperty_Deserialize :: "bool \<Rightarrow> DeserializeFunction" where
  "NodeUserData_TypeAndProperty_Deserialize PropIsFunction P io R s =
     (case NodeUserData_Type_ReadType io R s of
        (EZ_FAILURE, pType, s) \<Rightarrow> (EZ_FAILURE, s)
      | (EZ_SUCCESS, None, s) \<Rightarrow> (EZ_FAILURE, s)
      | (EZ_SUCCESS, Some pType, s) \<Rightarrow>
          (case (if PropIsFunction
                 then NodeUserData_TypeAndProperty_ReadProperty (FunctionsElementType R) io
                        pType (m_Functions pType) s
                 else NodeUserData_TypeAndProperty_ReadProperty (PropertiesElementType R) io
                        pType (m_Properties pType) s) of
             (EZ_FAILURE, pProp, s) \<Rightarrow> (EZ_FAILURE, s)
           | (EZ_SUCCESS, pProp, s) \<Rightarrow>
               (let userData = \<lparr>m_pType = Some pType, m_pProperty = pProp\<rparr>;
                    (node, a) = SetUserData (sizeof_NodeUserData_TypeAndProperty P)
                                  (alignof_NodeUserData_TypeAndProperty P)
                                  (UserData_TypeAndProperty userData)
                                  (ref_node s) (inout_pAdditionalData s)
                in (EZ_SUCCESS, s\<lparr>ref_node := node, inout_pAdditionalData := a\<rparr>))))"

definition NodeUserData_Comparison_Deserialize :: DeserializeFunction where
  "NodeUserData_Comparison_Deserialize P io R s =
     (let (v, rest) = get_enum io (inout_stream_r s);
          s = s\<lparr>inout_stream_r := rest\<rparr>;
          userData = \<lparr>m_ComparisonOperator' = v\<rparr>;
          (node, a) = SetUserData (sizeof_NodeUserData_Comparison P)
                        (alignof_NodeUserData_Comparison P)
                        (UserData_Comparison userData) (ref_node s) (inout_pAdditionalData s)
      in (EZ_SUCCESS, s\<lparr>ref_node := node, inout_pAdditionalData := a\<rparr>))"

definition NodeUserData_StartCoroutine_Deserialize :: DeserializeFunction where
  "NodeUserData_StartCoroutine_Deserialize P io R s =
     (case NodeUserData_Type_ReadType io R s of
        (EZ_FAILURE, pType, s) \<Rightarrow> (EZ_FAILURE, s)
      | (EZ_SUCCESS, pType, s) \<Rightarrow>
          (let (v, rest) = get_enum io (inout_stream_r s);
               s = s\<lparr>inout_stream_r := rest\<rparr>;
               userData = \<lparr>m_pType = pType, m_CreationMode = v\<rparr>;
               (node, a) = SetUserData (sizeof_NodeUserData_StartCoroutine P)
                             (alignof_NodeUserData_StartCoroutine P)
                             (UserData_StartCoroutine userData)
                             (ref_node s) (inout_pAdditionalData s)
           in (EZ_SUCCESS, s\<lparr>ref_node := node, inout_pAdditionalData := a\<rparr>)))"

subsection \<open>ToString\<close>

text \<open>\<^verbatim>\<open>out_sResult\<close> is passed in and returned; \<^verbatim>\<open>Append\<close> adds at its end.\<close>

type_synonym ToStringFunction =
  "reflection \<Rightarrow> ezVisualScriptNodeDescription \<Rightarrow> string \<Rightarrow> string"

definition NodeUserData_Type_ToString :: ToStringFunction where
  "NodeUserData_Type_ToString R nodeDesc out_sResult =
     (if (m_sTargetTypeName nodeDesc = []) = False
      then out_sResult @ m_sTargetTypeName nodeDesc
      else out_sResult)"

definition NodeUserData_TypeAndProperty_ToString :: ToStringFunction where
  "NodeUserData_TypeAndProperty_ToString R nodeDesc out_sResult =
     (let out_sResult = NodeUserData_Type_ToString R nodeDesc out_sResult
      in if (m_sTargetPropertyName nodeDesc = []) = False
         then out_sResult @ ''.'' @ m_sTargetPropertyName nodeDesc
         else out_sResult)"

definition NodeUserData_Comparison_ToString :: ToStringFunction where
  "NodeUserData_Comparison_ToString R nodeDesc out_sResult =
     (let sCompOp = ComparisonOperatorToString R (m_ComparisonOperator nodeDesc)
      in out_sResult @ '' '' @ sCompOp)"

definition NodeUserData_StartCoroutine_ToString :: ToStringFunction where
  "NodeUserData_StartCoroutine_ToString R nodeDesc out_sResult =
     (let out_sResult = NodeUserData_Type_ToString R nodeDesc out_sResult;
          sCreationMode = CoroutineCreationModeToString R (m_CoroutineCreationMode nodeDesc)
      in out_sResult @ '' '' @ sCreationMode)"

subsection \<open>The node types\<close>

text \<open>
  Modelled from the spec: the enum \<^verbatim>\<open>ezVisualScriptNodeDescription::Type\<close> is declared in
  \<^verbatim>\<open>VisualScript.h\<close>, which is not among the sources. The specification calls it a fixed,
  closed set of tags, used purely as an index into the table. The enumerators are those
  that the comments of \<^verbatim>\<open>s_TypeToUserDataContexts\<close> name, in that order and numbered from
  zero; \<^verbatim>\<open>Count\<close> follows the last of them.
\<close>

datatype Type_Enum =
    Invalid
  | EntryCall
  | EntryCall_Coroutine
  | MessageHandler
  | MessageHandler_Coroutine
  | ReflectedFunction
  | InplaceCoroutine
  | GetOwner
  | FirstBuiltin
  | Builtin_Branch
  | Builtin_And
  | Builtin_Or
  | Builtin_Not
  | Builtin_Compare
  | Builtin_IsValid
  | Builtin_Add
  | Builtin_Subtract
  | Builtin_Multiply
  | Builtin_Divide
  | Builtin_ToBool
  | Builtin_ToByte
  | Builtin_ToInt
  | Builtin_ToInt64
  | Builtin_ToFloat
  | Builtin_ToDouble
  | Builtin_ToString
  | Builtin_ToVariant
  | Builtin_Variant_ConvertTo
  | Builtin_MakeArray
  | Builtin_TryGetComponentOfBaseType
  | Builtin_StartCoroutine
  | Builtin_StopCoroutine
  | Builtin_StopAllCoroutines
  | Builtin_WaitForAll
  | Builtin_WaitForAny
  | Builtin_Yield
  | LastBuiltin

fun Type_value :: "Type_Enum \<Rightarrow> int" where
  "Type_value Invalid = 0"
| "Type_value EntryCall = 1"
| "Type_value EntryCall_Coroutine = 2"
| "Type_value MessageHandler = 3"
| "Type_value MessageHandler_Coroutine = 4"
| "Type_value ReflectedFunction = 5"
| "Type_value InplaceCoroutine = 6"
| "Type_value GetOwner = 7"
| "Type_value FirstBuiltin = 8"
| "Type_value Builtin_Branch = 9"
| "Type_value Builtin_And = 10"
| "Type_value Builtin_Or = 11"
| "Type_value Builtin_Not = 12"
| "Type_value Builtin_Compare = 13"
| "Type_value Builtin_IsValid = 14"
| "Type_value Builtin_Add = 15"
| "Type_value Builtin_Subtract = 16"
| "Type_value Builtin_Multiply = 17"
| "Type_value Builtin_Divide = 18"
| "Type_value Builtin_ToBool = 19"
| "Type_value Builtin_ToByte = 20"
| "Type_value Builtin_ToInt = 21"
| "Type_value Builtin_ToInt64 = 22"
| "Type_value Builtin_ToFloat = 23"
| "Type_value Builtin_ToDouble = 24"
| "Type_value Builtin_ToString = 25"
| "Type_value Builtin_ToVariant = 26"
| "Type_value Builtin_Variant_ConvertTo = 27"
| "Type_value Builtin_MakeArray = 28"
| "Type_value Builtin_TryGetComponentOfBaseType = 29"
| "Type_value Builtin_StartCoroutine = 30"
| "Type_value Builtin_StopCoroutine = 31"
| "Type_value Builtin_StopAllCoroutines = 32"
| "Type_value Builtin_WaitForAll = 33"
| "Type_value Builtin_WaitForAny = 34"
| "Type_value Builtin_Yield = 35"
| "Type_value LastBuiltin = 36"

definition Type_Count :: int where
  "Type_Count = 37"

subsection \<open>The table\<close>

text \<open>A function pointer is an \<open>option\<close>; the default member initialisers make
  every member of \<^verbatim>\<open>UserDataContext{}\<close> a \<^verbatim>\<open>nullptr\<close>.\<close>

record UserDataContext =
  m_SerializeFunc :: "SerializeFunction option"
  m_DeserializeFunc :: "DeserializeFunction option"
  m_ToStringFunc :: "ToStringFunction option"

definition s_TypeToUserDataContexts :: "UserDataContext list" where
  "s_TypeToUserDataContexts = [
      \<lparr>m_SerializeFunc = None, m_DeserializeFunc = None, m_ToStringFunc = None\<rparr>, \<comment> \<open>Invalid\<close>
      \<lparr>m_SerializeFunc = None, m_DeserializeFunc = None, m_ToStringFunc = None\<rparr>, \<comment> \<open>EntryCall\<close>
      \<lparr>m_SerializeFunc = None, m_DeserializeFunc = None, m_ToStringFunc = None\<rparr>, \<comment> \<open>EntryCall_Coroutine\<close>
      \<lparr>m_SerializeFunc = None, m_DeserializeFunc = None, m_ToStringFunc = None\<rparr>, \<comment> \<open>MessageHandler\<close>
      \<lparr>m_SerializeFunc = None, m_DeserializeFunc = None, m_ToStringFunc = None\<rparr>, \<comment> \<open>MessageHandler_Coroutine\<close>
      \<lparr>m_SerializeFunc = Some NodeUserData_TypeAndProperty_Serialize,
       m_DeserializeFunc = Some (NodeUserData_TypeAndProperty_Deserialize True),
       m_ToStringFunc = Some NodeUserData_TypeAndProperty_ToString\<rparr>, \<comment> \<open>ReflectedFunction\<close>
      \<lparr>m_SerializeFunc = Some NodeUserData_TypeAndProperty_Serialize,
       m_DeserializeFunc = Some (NodeUserData_TypeAndProperty_Deserialize True),
       m_ToStringFunc = Some NodeUserData_TypeAndProperty_ToString\<rparr>, \<comment> \<open>InplaceCoroutine\<close>
      \<lparr>m_SerializeFunc = None, m_DeserializeFunc = None, m_ToStringFunc = None\<rparr>, \<comment> \<open>GetOwner\<close>
      \<lparr>m_SerializeFunc = None, m_DeserializeFunc = None, m_ToStringFunc = None\<rparr>, \<comment> \<open>FirstBuiltin\<close>
      \<lparr>m_SerializeFunc = None, m_DeserializeFunc = None, m_ToStringFunc = None\<rparr>, \<comment> \<open>Builtin_Branch\<close>
      \<lparr>m_SerializeFunc = None, m_DeserializeFunc = None, m_ToStringFunc = None\<rparr>, \<comment> \<open>Builtin_And\<close>
      \<lparr>m_SerializeFunc = None, m_DeserializeFunc = None, m_ToStringFunc = None\<rparr>, \<comment> \<open>Builtin_Or\<close>
      \<lparr>m_SerializeFunc = None, m_DeserializeFunc = None, m_ToStringFunc = None\<rparr>, \<comment> \<open>Builtin_Not\<close>
      \<lparr>m_SerializeFunc = Some NodeUserData_Comparison_Serialize,
       m_DeserializeFunc = Some NodeUserData_Comparison_Deserialize,
       m_ToStringFunc = Some NodeUserData_Comparison_ToString\<rparr>, \<comment> \<open>Builtin_Compare\<close>
      \<lparr>m_SerializeFunc = None, m_DeserializeFunc = None, m_ToStringFunc = None\<rparr>, \<comment> \<open>Builtin_IsValid\<close>
      \<lparr>m_SerializeFunc = None, m_DeserializeFunc = None, m_ToStringFunc = None\<rparr>, \<comment> \<open>Builtin_Add\<close>
      \<lparr>m_SerializeFunc = None, m_DeserializeFunc = None, m_ToStringFunc = None\<rparr>, \<comment> \<open>Builtin_Subtract\<close>
      \<lparr>m_SerializeFunc = None, m_DeserializeFunc = None, m_ToStringFunc = None\<rparr>, \<comment> \<open>Builtin_Multiply\<close>
      \<lparr>m_SerializeFunc = None, m_DeserializeFunc = None, m_ToStringFunc = None\<rparr>, \<comment> \<open>Builtin_Divide\<close>
      \<lparr>m_SerializeFunc = None, m_DeserializeFunc = None, m_ToStringFunc = None\<rparr>, \<comment> \<open>Builtin_ToBool\<close>
      \<lparr>m_SerializeFunc = None, m_DeserializeFunc = None, m_ToStringFunc = None\<rparr>, \<comment> \<open>Builtin_ToByte\<close>
      \<lparr>m_SerializeFunc = None, m_DeserializeFunc = None, m_ToStringFunc = None\<rparr>, \<comment> \<open>Builtin_ToInt\<close>
      \<lparr>m_SerializeFunc = None, m_DeserializeFunc = None, m_ToStringFunc = None\<rparr>, \<comment> \<open>Builtin_ToInt64\<close>
      \<lparr>m_SerializeFunc = None, m_DeserializeFunc = None, m_ToStringFunc = None\<rparr>, \<comment> \<open>Builtin_ToFloat\<close>
      \<lparr>m_SerializeFunc = None, m_DeserializeFunc = None, m_ToStringFunc = None\<rparr>, \<comment> \<open>Builtin_ToDouble\<close>
      \<lparr>m_SerializeFunc = None, m_DeserializeFunc = None, m_ToStringFunc = None\<rparr>, \<comment> \<open>Builtin_ToString\<close>
      \<lparr>m_SerializeFunc = None, m_DeserializeFunc = None, m_ToStringFunc = None\<rparr>, \<comment> \<open>Builtin_ToVariant\<close>
      \<lparr>m_SerializeFunc = None, m_DeserializeFunc = None, m_ToStringFunc = None\<rparr>, \<comment> \<open>Builtin_Variant_ConvertTo\<close>
      \<lparr>m_SerializeFunc = None, m_DeserializeFunc = None, m_ToStringFunc = None\<rparr>, \<comment> \<open>Builtin_MakeArray\<close>
      \<lparr>m_SerializeFunc = Some NodeUserData_Type_Serialize,
       m_DeserializeFunc = Some NodeUserData_Type_Deserialize,
       m_ToStringFunc = Some NodeUserData_Type_ToString\<rparr>, \<comment> \<open>Builtin_TryGetComponentOfBaseType\<close>
      \<lparr>m_SerializeFunc = Some NodeUserData_StartCoroutine_Serialize,
       m_DeserializeFunc = Some NodeUserData_StartCoroutine_Deserialize,
       m_ToStringFunc = Some NodeUserData_StartCoroutine_ToString\<rparr>, \<comment> \<open>Builtin_StartCoroutine\<close>
      \<lparr>m_SerializeFunc = None, m_DeserializeFunc = None, m_ToStringFunc = None\<rparr>, \<comment> \<open>Builtin_StopCoroutine\<close>
      \<lparr>m_SerializeFunc = None, m_DeserializeFunc = None, m_ToStringFunc = None\<rparr>, \<comment> \<open>Builtin_StopAllCoroutines\<close>
      \<lparr>m_SerializeFunc = None, m_DeserializeFunc = None, m_ToStringFunc = None\<rparr>, \<comment> \<open>Builtin_WaitForAll\<close>
      \<lparr>m_SerializeFunc = None, m_DeserializeFunc = None, m_ToStringFunc = None\<rparr>, \<comment> \<open>Builtin_WaitForAny\<close>
      \<lparr>m_SerializeFunc = None, m_DeserializeFunc = None, m_ToStringFunc = None\<rparr>, \<comment> \<open>Builtin_Yield\<close>
      \<lparr>m_SerializeFunc = None, m_DeserializeFunc = None, m_ToStringFunc = None\<rparr> \<comment> \<open>LastBuiltin\<close>
    ]"

text \<open>
  The header's \<^verbatim>\<open>static_assert\<close> on the table, as a predicate on the value of
  \<^verbatim>\<open>Type::Count\<close>: the header is compiled only where it holds.
\<close>

definition static_assert_table :: "int \<Rightarrow> bool" where
  "static_assert_table Count = (int (length s_TypeToUserDataContexts) = Count)"

text \<open>
  \<^verbatim>\<open>GetUserDataContext\<close> takes the enum's value. \<^verbatim>\<open>EZ_ASSERT_DEBUG\<close> stops the program
  with its message when the condition is false; the model is the build in which the
  assertion is compiled in.
\<close>

datatype assertion = Assertion_Failed string

definition GetUserDataContext :: "int \<Rightarrow> assertion + UserDataContext" where
  "GetUserDataContext nodeType =
     (if nodeType \<ge> 0 \<and> nodeType < int (length s_TypeToUserDataContexts)
      then Inr (s_TypeToUserDataContexts ! nat nodeType)
      else Inl (Assertion_Failed ''Out of bounds access''))"

text \<open>
  A call through a member of a \<^verbatim>\<open>UserDataContext\<close>. A call through \<^verbatim>\<open>nullptr\<close> is not
  a call of any function: it is the error \<open>Null_Function_Call\<close>.
\<close>

datatype call_error = Null_Function_Call

definition call_SerializeFunc ::
  "UserDataContext \<Rightarrow> platform \<Rightarrow> stream_prims \<Rightarrow> ezVisualScriptNodeDescription \<Rightarrow> ser_state
   \<Rightarrow> call_error + ezResult \<times> ser_state" where
  "call_SerializeFunc ctx P io nodeDesc s =
     (case m_SerializeFunc ctx of
        None \<Rightarrow> Inl Null_Function_Call
      | Some f \<Rightarrow> Inr (f P io nodeDesc s))"

definition call_DeserializeFunc ::
  "UserDataContext \<Rightarrow> platform \<Rightarrow> stream_prims \<Rightarrow> reflection \<Rightarrow> deser_state
   \<Rightarrow> call_error + ezResult \<times> deser_state" where
  "call_DeserializeFunc ctx P io R s =
     (case m_DeserializeFunc ctx of
        None \<Rightarrow> Inl Null_Function_Call
      | Some f \<Rightarrow> Inr (f P io R s))"

definition call_ToStringFunc ::
  "UserDataContext \<Rightarrow> reflection \<Rightarrow> ezVisualScriptNodeDescription \<Rightarrow> string
   \<Rightarrow> call_error + string" where
  "call_ToStringFunc ctx R nodeDesc out_sResult =
     (case m_ToStringFunc ctx of
        None \<Rightarrow> Inl Null_Function_Call
      | Some f \<Rightarrow> Inr (f R nodeDesc out_sResult))"

subsection \<open>Struct layout\<close>

text \<open>
  The members of the four structs as the header declares them, each a pair of its size and
  its alignment. A pointer has the width of the platform; \<^verbatim>\<open>ezUInt32\<close> has four bytes;
  an \<^verbatim>\<open>ezEnum\<close> has the size \<open>e\<close> of its storage type, which is declared outside the
  header. The members \<^verbatim>\<open>m_uiPadding\<close> exist where \<^verbatim>\<open>EZ_PLATFORM_32BIT\<close> is enabled;
  \<^verbatim>\<open>NodeUserData_StartCoroutine\<close> declares none. A derived struct holds its base first.
\<close>

definition pointer_member :: "bool \<Rightarrow> nat \<times> nat" where
  "pointer_member is32 = (if is32 then (4, 4) else (8, 8))"

definition ezUInt32_member :: "nat \<times> nat" where
  "ezUInt32_member = (4, 4)"

definition ezEnum_member :: "nat \<Rightarrow> nat \<times> nat" where
  "ezEnum_member e = (e, e)"

text \<open>
  The layout that the compilers of the supported platforms give such a struct: each
  member lies at the next multiple of its alignment, the struct is aligned as its most
  aligned member, and its size is rounded up to a multiple of its alignment.
\<close>

fun place_members :: "nat \<Rightarrow> (nat \<times> nat) list \<Rightarrow> nat" where
  "place_members off [] = off"
| "place_members off (m # ms) = place_members (align_up off (snd m) + fst m) ms"

definition alignof_struct :: "(nat \<times> nat) list \<Rightarrow> nat" where
  "alignof_struct ms = foldr (\<lambda>m a. max (snd m) a) ms 1"

definition sizeof_struct :: "(nat \<times> nat) list \<Rightarrow> nat" where
  "sizeof_struct ms = align_up (place_members 0 ms) (alignof_struct ms)"

definition members_NodeUserData_Type :: "bool \<Rightarrow> (nat \<times> nat) list" where
  "members_NodeUserData_Type is32 =
     pointer_member is32 # (if is32 then [ezUInt32_member] else [])"

definition members_NodeUserData_TypeAndProperty :: "bool \<Rightarrow> (nat \<times> nat) list" where
  "members_NodeUserData_TypeAndProperty is32 =
     (sizeof_struct (members_NodeUserData_Type is32),
      alignof_struct (members_NodeUserData_Type is32))
     # pointer_member is32 # (if is32 then [ezUInt32_member] else [])"

definition members_NodeUserData_Comparison :: "nat \<Rightarrow> (nat \<times> nat) list" where
  "members_NodeUserData_Comparison e = [ezEnum_member e]"

definition members_NodeUserData_StartCoroutine :: "bool \<Rightarrow> nat \<Rightarrow> (nat \<times> nat) list" where
  "members_NodeUserData_StartCoroutine is32 e =
     [(sizeof_struct (members_NodeUserData_Type is32),
       alignof_struct (members_NodeUserData_Type is32)),
      ezEnum_member e]"

text \<open>The platform that a build for 32-bit or for 64-bit pointers yields.\<close>

definition compiled_platform :: "bool \<Rightarrow> nat \<Rightarrow> platform" where
  "compiled_platform is32 e =
     \<lparr>EZ_PLATFORM_32BIT = is32,
      sizeof_NodeUserData_Type = sizeof_struct (members_NodeUserData_Type is32),
      alignof_NodeUserData_Type = alignof_struct (members_NodeUserData_Type is32),
      sizeof_NodeUserData_TypeAndProperty =
        sizeof_struct (members_NodeUserData_TypeAndProperty is32),
      alignof_NodeUserData_TypeAndProperty =
        alignof_struct (members_NodeUserData_TypeAndProperty is32),
      sizeof_NodeUserData_Comparison = sizeof_struct (members_NodeUserData_Comparison e),
      alignof_NodeUserData_Comparison = alignof_struct (members_NodeUserData_Comparison e),
      sizeof_NodeUserData_StartCoroutine =
        sizeof_struct (members_NodeUserData_StartCoroutine is32 e),
      alignof_NodeUserData_StartCoroutine =
        alignof_struct (members_NodeUserData_StartCoroutine is32 e)\<rparr>"

subsection \<open>Written bytes\<close>

text \<open>The bytes that a \<^verbatim>\<open>SerializeFunction\<close> leaves in a stream that was empty.\<close>

definition fresh_writer :: ser_state where
  "fresh_writer = \<lparr>inout_stream_w = [], out_uiSize = 0, out_uiAlignment = 0\<rparr>"

definition written ::
  "SerializeFunction \<Rightarrow> platform \<Rightarrow> stream_prims \<Rightarrow> ezVisualScriptNodeDescription \<Rightarrow> byte list" where
  "written f P io nodeDesc = inout_stream_w (snd (f P io nodeDesc fresh_writer))"

subsection \<open>Element types that \<^verbatim>\<open>ReadProperty\<close> accepts\<close>

text \<open>
  The body of \<^verbatim>\<open>ReadProperty<T>\<close> applies \<^verbatim>\<open>->\<close> to an element of the array
  (\<^verbatim>\<open>pProp->GetPropertyName()\<close>) and assigns the element to a
  \<^verbatim>\<open>const ezAbstractProperty*\<close> (\<^verbatim>\<open>out_pProp = pProp\<close>). It is instantiated only for an
  element type \<^verbatim>\<open>T\<close> that is a pointer, \<^verbatim>\<open>const\<close> or not.
\<close>

fun is_pointer_type :: "cpp_type \<Rightarrow> bool" where
  "is_pointer_type (Pointer T) = True"
| "is_pointer_type (Const T) = is_pointer_type T"
| "is_pointer_type (Class n) = False"

subsection \<open>A table entry of operations that do nothing\<close>

text \<open>
  The wording of the specification for a tag without payload, as a predicate on a table
  entry: the serialize operation can be called, succeeds, writes no byte and reports size
  zero; the deserialize operation can be called, succeeds and changes nothing; the
  describe operation can be called and appends nothing.
\<close>

definition entry_of_noops ::
  "UserDataContext \<Rightarrow> platform \<Rightarrow> stream_prims \<Rightarrow> reflection \<Rightarrow> ezVisualScriptNodeDescription
   \<Rightarrow> ser_state \<Rightarrow> deser_state \<Rightarrow> string \<Rightarrow> bool" where
  "entry_of_noops ctx P io R nodeDesc w s out_sResult =
     ((case call_SerializeFunc ctx P io nodeDesc w of
         Inl e \<Rightarrow> False
       | Inr (r, w') \<Rightarrow> r = EZ_SUCCESS \<and> inout_stream_w w' = inout_stream_w w \<and> out_uiSize w' = 0) \<and>
      (case call_DeserializeFunc ctx P io R s of
         Inl e \<Rightarrow> False
       | Inr (r, s') \<Rightarrow> r = EZ_SUCCESS \<and> s' = s) \<and>
      (case call_ToStringFunc ctx R nodeDesc out_sResult of
         Inl e \<Rightarrow> False
       | Inr out' \<Rightarrow> out' = out_sResult))"

subsection \<open>Concrete collaborators\<close>

text \<open>
  Modelled from the spec: the stream primitives are not among the sources. The
  specification (External Interfaces) has all fields as length-prefixed strings or
  fixed-width scalars. Here the length is four bytes, least significant first, the
  characters follow as one byte each, and an enum's scalar is one byte. A read from a
  stream that is too short yields what is there. These primitives serve as the concrete
  instance at which the theorems below are evaluated.
\<close>

definition u32_le :: "nat \<Rightarrow> byte list" where
  "u32_le n = [of_nat n, of_nat (n div 2 ^ 8), of_nat (n div 2 ^ 16), of_nat (n div 2 ^ 24)]"

definition le_u32 :: "byte list \<Rightarrow> nat" where
  "le_u32 bs = foldr (\<lambda>b acc. unat b + 256 * acc) bs 0"

definition spec_put_string :: "string \<Rightarrow> byte list" where
  "spec_put_string str = u32_le (length str) @ map (\<lambda>c. of_nat (of_char c)) str"

definition spec_get_string :: "byte list \<Rightarrow> string \<times> byte list" where
  "spec_get_string bs =
     (let n = le_u32 (take 4 bs); rest = drop 4 bs
      in (map (\<lambda>b. char_of (unat b)) (take n rest), drop n rest))"

definition spec_put_enum :: "byte \<Rightarrow> byte list" where
  "spec_put_enum v = [v]"

definition spec_get_enum :: "byte list \<Rightarrow> byte \<times> byte list" where
  "spec_get_enum bs = (case bs of [] \<Rightarrow> (0, []) | b # rest \<Rightarrow> (b, rest))"

definition spec_stream_prims :: stream_prims where
  "spec_stream_prims =
     \<lparr>put_string = spec_put_string, get_string = spec_get_string,
      put_enum = spec_put_enum, get_enum = spec_get_enum\<rparr>"

text \<open>A 64-bit platform, a type \<^verbatim>\<open>Foo\<close> with one property and three functions, two of
  them of the name \<^verbatim>\<open>Bar\<close>, a registry that knows \<^verbatim>\<open>Foo\<close> only, and a node description.\<close>

definition example_platform :: platform where
  "example_platform =
     \<lparr>EZ_PLATFORM_32BIT = False,
      sizeof_NodeUserData_Type = 8, alignof_NodeUserData_Type = 8,
      sizeof_NodeUserData_TypeAndProperty = 16, alignof_NodeUserData_TypeAndProperty = 8,
      sizeof_NodeUserData_Comparison = 1, alignof_NodeUserData_Comparison = 1,
      sizeof_NodeUserData_StartCoroutine = 16, alignof_NodeUserData_StartCoroutine = 8\<rparr>"

definition example_Foo :: ezRTTI where
  "example_Foo =
     \<lparr>m_szTypeName = ''Foo'',
      m_Properties = [\<lparr>m_szPropertyName = ''Baz'', m_Identity = 10\<rparr>],
      m_Functions = [\<lparr>m_szPropertyName = ''Qux'', m_Identity = 20\<rparr>,
                     \<lparr>m_szPropertyName = ''Bar'', m_Identity = 21\<rparr>,
                     \<lparr>m_szPropertyName = ''Bar'', m_Identity = 22\<rparr>]\<rparr>"

definition example_reflection :: reflection where
  "example_reflection =
     \<lparr>FindTypeByName = (\<lambda>sName. if sName = ''Foo'' then Some example_Foo else None),
      PropertiesElementType = Pointer (Class ''ezAbstractProperty''),
      FunctionsElementType = Pointer (Class ''ezAbstractFunctionProperty''),
      ComparisonOperatorToString = (\<lambda>v. if v = 4 then ''Greater'' else []),
      CoroutineCreationModeToString = (\<lambda>v. if v = 1 then ''DontCreateNew'' else [])\<rparr>"

definition example_nodeDesc :: ezVisualScriptNodeDescription where
  "example_nodeDesc =
     \<lparr>m_sTargetTypeName = ''Foo'', m_sTargetPropertyName = ''Bar'',
      m_ComparisonOperator = 4, m_CoroutineCreationMode = 1\<rparr>"

text \<open>A reader state on the given bytes: the arena cursor is at offset 3, nothing is
  placed and nothing is logged yet.\<close>

definition example_reader :: "byte list \<Rightarrow> deser_state" where
  "example_reader bs =
     \<lparr>ref_node = \<lparr>m_UserDataOffset = 0, m_UserDataByteSize = 0\<rparr>,
      inout_stream_r = bs,
      inout_pAdditionalData = \<lparr>m_Cursor = 3, m_Placed = []\<rparr>,
      ezLog = []\<rparr>"

section \<open>The functions, case by case\<close>

subsection \<open>Serialize\<close>

lemma Type_Serialize_eq:
  "NodeUserData_Type_Serialize P io d s =
     (EZ_SUCCESS, s\<lparr>inout_stream_w := inout_stream_w s @ put_string io (m_sTargetTypeName d),
                     out_uiSize := sizeof_NodeUserData_Type P,
                     out_uiAlignment := alignof_NodeUserData_Type P\<rparr>)"
  by (simp add: NodeUserData_Type_Serialize_def)

lemma TypeAndProperty_Serialize_eq:
  "NodeUserData_TypeAndProperty_Serialize P io d s =
     (EZ_SUCCESS, s\<lparr>inout_stream_w := inout_stream_w s @ put_string io (m_sTargetTypeName d)
                                        @ put_string io (m_sTargetPropertyName d),
                     out_uiSize := sizeof_NodeUserData_TypeAndProperty P,
                     out_uiAlignment := alignof_NodeUserData_TypeAndProperty P\<rparr>)"
  by (simp add: NodeUserData_TypeAndProperty_Serialize_def Type_Serialize_eq)

lemma Comparison_Serialize_eq:
  "NodeUserData_Comparison_Serialize P io d s =
     (EZ_SUCCESS, s\<lparr>inout_stream_w := inout_stream_w s @ put_enum io (m_ComparisonOperator d),
                     out_uiSize := sizeof_NodeUserData_Comparison P,
                     out_uiAlignment := alignof_NodeUserData_Comparison P\<rparr>)"
  by (simp add: NodeUserData_Comparison_Serialize_def)

lemma StartCoroutine_Serialize_eq:
  "NodeUserData_StartCoroutine_Serialize P io d s =
     (EZ_SUCCESS, s\<lparr>inout_stream_w := inout_stream_w s @ put_string io (m_sTargetTypeName d)
                                        @ put_enum io (m_CoroutineCreationMode d),
                     out_uiSize := sizeof_NodeUserData_StartCoroutine P,
                     out_uiAlignment := alignof_NodeUserData_StartCoroutine P\<rparr>)"
  by (simp add: NodeUserData_StartCoroutine_Serialize_def Type_Serialize_eq)

subsection \<open>Reading a type and a member\<close>

lemma ReadType_unresolved:
  assumes "FindTypeByName R (fst (get_string io (inout_stream_r s))) = None"
  shows "NodeUserData_Type_ReadType io R s =
           (EZ_FAILURE, None,
            s\<lparr>inout_stream_r := snd (get_string io (inout_stream_r s)),
              ezLog := ezLog s @ [''Unknown type '' @ quote
                                  @ fst (get_string io (inout_stream_r s)) @ quote]\<rparr>)"
  using assms by (simp add: NodeUserData_Type_ReadType_def split_def Let_def)

lemma ReadType_resolved:
  assumes "FindTypeByName R (fst (get_string io (inout_stream_r s))) = Some t"
  shows "NodeUserData_Type_ReadType io R s =
           (EZ_SUCCESS, Some t, s\<lparr>inout_stream_r := snd (get_string io (inout_stream_r s))\<rparr>)"
  using assms by (simp add: NodeUserData_Type_ReadType_def split_def Let_def)

lemma ReadType_success:
  "fst (NodeUserData_Type_ReadType io R s) = EZ_SUCCESS
   \<longleftrightarrow> fst (snd (NodeUserData_Type_ReadType io R s)) \<noteq> None"
  by (simp add: NodeUserData_Type_ReadType_def split_def Let_def)

lemma ReadProperty_loop_find:
  "ReadProperty_loop sPropName properties =
     find (\<lambda>pProp. sPropName = m_szPropertyName pProp) properties"
  by (induction properties) simp_all

lemma ReadProperty_loop_None:
  "ReadProperty_loop sPropName properties = None
   \<longleftrightarrow> sPropName \<notin> set (map m_szPropertyName properties)"
  by (induction properties) auto

lemma ReadProperty_loop_first:
  "ReadProperty_loop sPropName properties = Some pProp
   \<longleftrightarrow> (\<exists>i < length properties.
          sPropName = m_szPropertyName (properties ! i) \<and> pProp = properties ! i
          \<and> (\<forall>j < i. sPropName \<noteq> m_szPropertyName (properties ! j)))"
  by (simp add: ReadProperty_loop_find find_Some_iff)

lemma ReadProperty_unresolved:
  assumes "ReadProperty_loop (fst (get_string io (inout_stream_r s))) properties = None"
  shows "NodeUserData_TypeAndProperty_ReadProperty T io pType properties s =
           (EZ_FAILURE, None,
            s\<lparr>inout_stream_r := snd (get_string io (inout_stream_r s)),
              ezLog := ezLog s @
                [(if T = Class ''ezAbstractFunctionProperty'' then ''Function'' else ''Property'')
                 @ '' '' @ quote @ fst (get_string io (inout_stream_r s)) @ quote
                 @ '' not found on type '' @ quote @ m_szTypeName pType @ quote]\<rparr>)"
  using assms by (simp add: NodeUserData_TypeAndProperty_ReadProperty_def split_def Let_def)

lemma ReadProperty_resolved:
  assumes "ReadProperty_loop (fst (get_string io (inout_stream_r s))) properties = Some pProp"
  shows "NodeUserData_TypeAndProperty_ReadProperty T io pType properties s =
           (EZ_SUCCESS, Some pProp, s\<lparr>inout_stream_r := snd (get_string io (inout_stream_r s))\<rparr>)"
  using assms by (simp add: NodeUserData_TypeAndProperty_ReadProperty_def split_def Let_def)

subsection \<open>Deserialize\<close>

lemma SetUserData_placed:
  "m_Placed (snd (SetUserData uiSize uiAlignment data node a)) =
     m_Placed a @ [(m_UserDataOffset (fst (SetUserData uiSize uiAlignment data node a)), data)]"
  by (simp add: SetUserData_def Let_def)

lemma Type_Deserialize_unresolved:
  assumes "FindTypeByName R (fst (get_string io (inout_stream_r s))) = None"
  shows "NodeUserData_Type_Deserialize P io R s =
           (EZ_FAILURE,
            s\<lparr>inout_stream_r := snd (get_string io (inout_stream_r s)),
              ezLog := ezLog s @ [''Unknown type '' @ quote
                                  @ fst (get_string io (inout_stream_r s)) @ quote]\<rparr>)"
  by (simp add: NodeUserData_Type_Deserialize_def ReadType_unresolved [OF assms])

lemma TypeAndProperty_Deserialize_unresolved:
  assumes "FindTypeByName R (fst (get_string io (inout_stream_r s))) = None"
  shows "NodeUserData_TypeAndProperty_Deserialize PropIsFunction P io R s =
           (EZ_FAILURE,
            s\<lparr>inout_stream_r := snd (get_string io (inout_stream_r s)),
              ezLog := ezLog s @ [''Unknown type '' @ quote
                                  @ fst (get_string io (inout_stream_r s)) @ quote]\<rparr>)"
  by (simp add: NodeUserData_TypeAndProperty_Deserialize_def ReadType_unresolved [OF assms])

lemma StartCoroutine_Deserialize_unresolved:
  assumes "FindTypeByName R (fst (get_string io (inout_stream_r s))) = None"
  shows "NodeUserData_StartCoroutine_Deserialize P io R s =
           (EZ_FAILURE,
            s\<lparr>inout_stream_r := snd (get_string io (inout_stream_r s)),
              ezLog := ezLog s @ [''Unknown type '' @ quote
                                  @ fst (get_string io (inout_stream_r s)) @ quote]\<rparr>)"
  by (simp add: NodeUserData_StartCoroutine_Deserialize_def ReadType_unresolved [OF assms])

lemma Type_Deserialize_resolved:
  assumes "FindTypeByName R (fst (get_string io (inout_stream_r s))) = Some t"
  shows "NodeUserData_Type_Deserialize P io R s =
           (EZ_SUCCESS,
            s\<lparr>inout_stream_r := snd (get_string io (inout_stream_r s)),
              ref_node := fst (SetUserData (sizeof_NodeUserData_Type P) (alignof_NodeUserData_Type P)
                            (UserData_Type \<lparr>m_pType = Some t\<rparr>) (ref_node s) (inout_pAdditionalData s)),
              inout_pAdditionalData :=
                snd (SetUserData (sizeof_NodeUserData_Type P) (alignof_NodeUserData_Type P)
                            (UserData_Type \<lparr>m_pType = Some t\<rparr>) (ref_node s) (inout_pAdditionalData s))\<rparr>)"
  by (simp add: NodeUserData_Type_Deserialize_def ReadType_resolved [OF assms] split_def Let_def)

lemma TypeAndProperty_Deserialize_member_unresolved:
  assumes "FindTypeByName R (fst (get_string io (inout_stream_r s))) = Some t"
    and "ReadProperty_loop (fst (get_string io (snd (get_string io (inout_stream_r s)))))
           (if PropIsFunction then m_Functions t else m_Properties t) = None"
  shows "NodeUserData_TypeAndProperty_Deserialize PropIsFunction P io R s =
           (EZ_FAILURE,
            s\<lparr>inout_stream_r := snd (get_string io (snd (get_string io (inout_stream_r s)))),
              ezLog := ezLog s @
                [(if (if PropIsFunction then FunctionsElementType R else PropertiesElementType R)
                       = Class ''ezAbstractFunctionProperty''
                  then ''Function'' else ''Property'')
                 @ '' '' @ quote @ fst (get_string io (snd (get_string io (inout_stream_r s)))) @ quote
                 @ '' not found on type '' @ quote @ m_szTypeName t @ quote]\<rparr>)"
  using assms(2)
  by (cases PropIsFunction)
     (simp_all add: NodeUserData_TypeAndProperty_Deserialize_def ReadType_resolved [OF assms(1)]
        ReadProperty_unresolved)

lemma TypeAndProperty_Deserialize_resolved:
  assumes "FindTypeByName R (fst (get_string io (inout_stream_r s))) = Some t"
    and "ReadProperty_loop (fst (get_string io (snd (get_string io (inout_stream_r s)))))
           (if PropIsFunction then m_Functions t else m_Properties t) = Some p"
  shows "NodeUserData_TypeAndProperty_Deserialize PropIsFunction P io R s =
           (EZ_SUCCESS,
            s\<lparr>inout_stream_r := snd (get_string io (snd (get_string io (inout_stream_r s)))),
              ref_node := fst (SetUserData (sizeof_NodeUserData_TypeAndProperty P)
                            (alignof_NodeUserData_TypeAndProperty P)
                            (UserData_TypeAndProperty \<lparr>m_pType = Some t, m_pProperty = Some p\<rparr>)
                            (ref_node s) (inout_pAdditionalData s)),
              inout_pAdditionalData :=
                snd (SetUserData (sizeof_NodeUserData_TypeAndProperty P)
                            (alignof_NodeUserData_TypeAndProperty P)
                            (UserData_TypeAndProperty \<lparr>m_pType = Some t, m_pProperty = Some p\<rparr>)
                            (ref_node s) (inout_pAdditionalData s))\<rparr>)"
  using assms(2)
  by (cases PropIsFunction)
     (simp_all add: NodeUserData_TypeAndProperty_Deserialize_def ReadType_resolved [OF assms(1)]
        ReadProperty_resolved split_def Let_def)

lemma Comparison_Deserialize_eq:
  "NodeUserData_Comparison_Deserialize P io R s =
     (EZ_SUCCESS,
      s\<lparr>inout_stream_r := snd (get_enum io (inout_stream_r s)),
        ref_node := fst (SetUserData (sizeof_NodeUserData_Comparison P)
                      (alignof_NodeUserData_Comparison P)
                      (UserData_Comparison \<lparr>m_ComparisonOperator' = fst (get_enum io (inout_stream_r s))\<rparr>)
                      (ref_node s) (inout_pAdditionalData s)),
        inout_pAdditionalData :=
          snd (SetUserData (sizeof_NodeUserData_Comparison P)
                      (alignof_NodeUserData_Comparison P)
                      (UserData_Comparison \<lparr>m_ComparisonOperator' = fst (get_enum io (inout_stream_r s))\<rparr>)
                      (ref_node s) (inout_pAdditionalData s))\<rparr>)"
  by (simp add: NodeUserData_Comparison_Deserialize_def split_def Let_def)

lemma StartCoroutine_Deserialize_resolved:
  assumes "FindTypeByName R (fst (get_string io (inout_stream_r s))) = Some t"
  shows "NodeUserData_StartCoroutine_Deserialize P io R s =
     (EZ_SUCCESS,
      s\<lparr>inout_stream_r := snd (get_enum io (snd (get_string io (inout_stream_r s)))),
        ref_node := fst (SetUserData (sizeof_NodeUserData_StartCoroutine P)
                      (alignof_NodeUserData_StartCoroutine P)
                      (UserData_StartCoroutine \<lparr>m_pType = Some t,
                         m_CreationMode = fst (get_enum io (snd (get_string io (inout_stream_r s))))\<rparr>)
                      (ref_node s) (inout_pAdditionalData s)),
        inout_pAdditionalData :=
          snd (SetUserData (sizeof_NodeUserData_StartCoroutine P)
                      (alignof_NodeUserData_StartCoroutine P)
                      (UserData_StartCoroutine \<lparr>m_pType = Some t,
                         m_CreationMode = fst (get_enum io (snd (get_string io (inout_stream_r s))))\<rparr>)
                      (ref_node s) (inout_pAdditionalData s))\<rparr>)"
  by (simp add: NodeUserData_StartCoroutine_Deserialize_def ReadType_resolved [OF assms] split_def Let_def)

lemma Type_Deserialize_fails_iff:
  "fst (NodeUserData_Type_Deserialize P io R s) = EZ_FAILURE
   \<longleftrightarrow> FindTypeByName R (fst (get_string io (inout_stream_r s))) = None"
  by (cases "FindTypeByName R (fst (get_string io (inout_stream_r s)))")
     (simp_all add: Type_Deserialize_unresolved Type_Deserialize_resolved)

lemma StartCoroutine_Deserialize_fails_iff:
  "fst (NodeUserData_StartCoroutine_Deserialize P io R s) = EZ_FAILURE
   \<longleftrightarrow> FindTypeByName R (fst (get_string io (inout_stream_r s))) = None"
  by (cases "FindTypeByName R (fst (get_string io (inout_stream_r s)))")
     (simp_all add: StartCoroutine_Deserialize_unresolved StartCoroutine_Deserialize_resolved)

lemma TypeAndProperty_Deserialize_fails_iff:
  "fst (NodeUserData_TypeAndProperty_Deserialize PropIsFunction P io R s) = EZ_FAILURE
   \<longleftrightarrow> (case FindTypeByName R (fst (get_string io (inout_stream_r s))) of
          None \<Rightarrow> True
        | Some t \<Rightarrow>
            ReadProperty_loop (fst (get_string io (snd (get_string io (inout_stream_r s)))))
              (if PropIsFunction then m_Functions t else m_Properties t) = None)"
proof (cases "FindTypeByName R (fst (get_string io (inout_stream_r s)))")
  case None
  then show ?thesis by (simp add: TypeAndProperty_Deserialize_unresolved)
next
  case (Some t)
  show ?thesis
  proof (cases "ReadProperty_loop (fst (get_string io (snd (get_string io (inout_stream_r s)))))
              (if PropIsFunction then m_Functions t else m_Properties t)")
    case None
    with Some show ?thesis
      by (simp add: TypeAndProperty_Deserialize_member_unresolved [OF Some None])
  next
    case (Some p)
    note m = this
    from \<open>FindTypeByName R (fst (get_string io (inout_stream_r s))) = Some t\<close> m show ?thesis
      by (simp add: TypeAndProperty_Deserialize_resolved [OF \<open>FindTypeByName R (fst (get_string io (inout_stream_r s))) = Some t\<close> m])
  qed
qed

subsection \<open>Sizes\<close>

lemma Serialize_reports_sizeof:
  "out_uiSize (snd (NodeUserData_Type_Serialize P io nodeDesc s)) = sizeof_NodeUserData_Type P \<and>
   out_uiAlignment (snd (NodeUserData_Type_Serialize P io nodeDesc s)) =
     alignof_NodeUserData_Type P \<and>
   out_uiSize (snd (NodeUserData_TypeAndProperty_Serialize P io nodeDesc s)) =
     sizeof_NodeUserData_TypeAndProperty P \<and>
   out_uiAlignment (snd (NodeUserData_TypeAndProperty_Serialize P io nodeDesc s)) =
     alignof_NodeUserData_TypeAndProperty P \<and>
   out_uiSize (snd (NodeUserData_Comparison_Serialize P io nodeDesc s)) =
     sizeof_NodeUserData_Comparison P \<and>
   out_uiAlignment (snd (NodeUserData_Comparison_Serialize P io nodeDesc s)) =
     alignof_NodeUserData_Comparison P \<and>
   out_uiSize (snd (NodeUserData_StartCoroutine_Serialize P io nodeDesc s)) =
     sizeof_NodeUserData_StartCoroutine P \<and>
   out_uiAlignment (snd (NodeUserData_StartCoroutine_Serialize P io nodeDesc s)) =
     alignof_NodeUserData_StartCoroutine P"
  by (simp add: Type_Serialize_eq TypeAndProperty_Serialize_eq StartCoroutine_Serialize_eq
      Comparison_Serialize_eq)

lemma compiled_sizes_64:
  assumes "e \<in> {1, 2, 4}"
  shows "sizeof_NodeUserData_Type (compiled_platform False e) = 8"
    and "sizeof_NodeUserData_TypeAndProperty (compiled_platform False e) = 16"
    and "sizeof_NodeUserData_StartCoroutine (compiled_platform False e) = 16"
  using assms
  by (auto simp: compiled_platform_def sizeof_struct_def alignof_struct_def align_up_def
      members_NodeUserData_Type_def members_NodeUserData_TypeAndProperty_def
      members_NodeUserData_StartCoroutine_def pointer_member_def ezUInt32_member_def
      ezEnum_member_def)

lemma compiled_sizes_32:
  assumes "e \<in> {1, 2, 4}"
  shows "sizeof_NodeUserData_Type (compiled_platform True e) = 8"
    and "sizeof_NodeUserData_TypeAndProperty (compiled_platform True e) = 16"
    and "sizeof_NodeUserData_StartCoroutine (compiled_platform True e) = 12"
  using assms
  by (auto simp: compiled_platform_def sizeof_struct_def alignof_struct_def align_up_def
      members_NodeUserData_Type_def members_NodeUserData_TypeAndProperty_def
      members_NodeUserData_StartCoroutine_def pointer_member_def ezUInt32_member_def
      ezEnum_member_def)

subsection \<open>Written bytes\<close>

lemma written_eqs:
  "written NodeUserData_Type_Serialize P io nodeDesc = put_string io (m_sTargetTypeName nodeDesc)"
  "written NodeUserData_TypeAndProperty_Serialize P io nodeDesc =
     put_string io (m_sTargetTypeName nodeDesc) @ put_string io (m_sTargetPropertyName nodeDesc)"
  "written NodeUserData_Comparison_Serialize P io nodeDesc =
     put_enum io (m_ComparisonOperator nodeDesc)"
  "written NodeUserData_StartCoroutine_Serialize P io nodeDesc =
     put_string io (m_sTargetTypeName nodeDesc) @ put_enum io (m_CoroutineCreationMode nodeDesc)"
  by (simp_all add: written_def fresh_writer_def Type_Serialize_eq TypeAndProperty_Serialize_eq
      Comparison_Serialize_eq StartCoroutine_Serialize_eq)

subsection \<open>The table\<close>

lemma length_s_TypeToUserDataContexts: "length s_TypeToUserDataContexts = 37"
  by (simp add: s_TypeToUserDataContexts_def)

lemma Type_value_bounds: "0 \<le> Type_value t \<and> Type_value t < 37"
  by (cases t) simp_all

lemma Type_value_inverse:
  "[Invalid, EntryCall, EntryCall_Coroutine, MessageHandler, MessageHandler_Coroutine,
    ReflectedFunction, InplaceCoroutine, GetOwner, FirstBuiltin, Builtin_Branch, Builtin_And,
    Builtin_Or, Builtin_Not, Builtin_Compare, Builtin_IsValid, Builtin_Add, Builtin_Subtract,
    Builtin_Multiply, Builtin_Divide, Builtin_ToBool, Builtin_ToByte, Builtin_ToInt,
    Builtin_ToInt64, Builtin_ToFloat, Builtin_ToDouble, Builtin_ToString, Builtin_ToVariant,
    Builtin_Variant_ConvertTo, Builtin_MakeArray, Builtin_TryGetComponentOfBaseType,
    Builtin_StartCoroutine, Builtin_StopCoroutine, Builtin_StopAllCoroutines,
    Builtin_WaitForAll, Builtin_WaitForAny, Builtin_Yield, LastBuiltin] ! nat (Type_value t) = t"
  by (cases t) simp_all

lemma Type_value_inj: "inj Type_value"
  by (rule inj_on_inverseI [where g = "\<lambda>n. _ ! nat n"]) (rule Type_value_inverse)

lemma Type_value_onto:
  assumes "0 \<le> n" and "n < 37"
  shows "n \<in> range Type_value"
proof -
  let ?all = "[Invalid, EntryCall, EntryCall_Coroutine, MessageHandler, MessageHandler_Coroutine,
    ReflectedFunction, InplaceCoroutine, GetOwner, FirstBuiltin, Builtin_Branch, Builtin_And,
    Builtin_Or, Builtin_Not, Builtin_Compare, Builtin_IsValid, Builtin_Add, Builtin_Subtract,
    Builtin_Multiply, Builtin_Divide, Builtin_ToBool, Builtin_ToByte, Builtin_ToInt,
    Builtin_ToInt64, Builtin_ToFloat, Builtin_ToDouble, Builtin_ToString, Builtin_ToVariant,
    Builtin_Variant_ConvertTo, Builtin_MakeArray, Builtin_TryGetComponentOfBaseType,
    Builtin_StartCoroutine, Builtin_StopCoroutine, Builtin_StopAllCoroutines,
    Builtin_WaitForAll, Builtin_WaitForAny, Builtin_Yield, LastBuiltin]"
  have "n \<in> set [0..36]"
    using assms by simp
  also have "[0..36] = map Type_value ?all"
    by (simp add: upto.simps)
  finally have "n \<in> Type_value ` set ?all"
    by (simp only: set_map)
  then obtain t where "n = Type_value t"
    by (rule imageE)
  then show ?thesis
    by (simp only: rangeI)
qed

lemma Type_value_range: "range Type_value = {0..<Type_Count}"
  using Type_value_bounds Type_value_onto by (auto simp: Type_Count_def)

lemma no_payload_entry:
  assumes "t \<notin> {ReflectedFunction, InplaceCoroutine, Builtin_Compare,
                 Builtin_TryGetComponentOfBaseType, Builtin_StartCoroutine}"
  shows "s_TypeToUserDataContexts ! nat (Type_value t) =
           \<lparr>m_SerializeFunc = None, m_DeserializeFunc = None, m_ToStringFunc = None\<rparr>"
  using assms by (cases t) (simp_all add: s_TypeToUserDataContexts_def)

lemma payload_entries:
  "s_TypeToUserDataContexts ! nat (Type_value ReflectedFunction) =
     \<lparr>m_SerializeFunc = Some NodeUserData_TypeAndProperty_Serialize,
      m_DeserializeFunc = Some (NodeUserData_TypeAndProperty_Deserialize True),
      m_ToStringFunc = Some NodeUserData_TypeAndProperty_ToString\<rparr>"
  "s_TypeToUserDataContexts ! nat (Type_value InplaceCoroutine) =
     \<lparr>m_SerializeFunc = Some NodeUserData_TypeAndProperty_Serialize,
      m_DeserializeFunc = Some (NodeUserData_TypeAndProperty_Deserialize True),
      m_ToStringFunc = Some NodeUserData_TypeAndProperty_ToString\<rparr>"
  "s_TypeToUserDataContexts ! nat (Type_value Builtin_Compare) =
     \<lparr>m_SerializeFunc = Some NodeUserData_Comparison_Serialize,
      m_DeserializeFunc = Some NodeUserData_Comparison_Deserialize,
      m_ToStringFunc = Some NodeUserData_Comparison_ToString\<rparr>"
  "s_TypeToUserDataContexts ! nat (Type_value Builtin_TryGetComponentOfBaseType) =
     \<lparr>m_SerializeFunc = Some NodeUserData_Type_Serialize,
      m_DeserializeFunc = Some NodeUserData_Type_Deserialize,
      m_ToStringFunc = Some NodeUserData_Type_ToString\<rparr>"
  "s_TypeToUserDataContexts ! nat (Type_value Builtin_StartCoroutine) =
     \<lparr>m_SerializeFunc = Some NodeUserData_StartCoroutine_Serialize,
      m_DeserializeFunc = Some NodeUserData_StartCoroutine_Deserialize,
      m_ToStringFunc = Some NodeUserData_StartCoroutine_ToString\<rparr>"
  by (simp_all add: s_TypeToUserDataContexts_def)

subsection \<open>The concrete stream primitives\<close>

text \<open>
  A string of fewer than \<open>2 ^ 32\<close> characters is read back as it was written, whatever
  follows it in the stream; so is an enum's scalar.
\<close>

lemma le_u32_u32_le:
  assumes "n < 2 ^ 32"
  shows "le_u32 (u32_le n) = n"
proof -
  define a where "a = n mod 256"
  define b where "b = n div 256 mod 256"
  define c where "c = n div 65536 mod 256"
  define d where "d = n div 16777216"
  have d1: "n div 256 div 256 = n div 65536" and d2: "n div 65536 div 256 = n div 16777216"
    by (simp_all add: div_mult2_eq [symmetric])
  have e1: "n = a + 256 * (n div 256)"
    unfolding a_def by simp
  have e2: "n div 256 = b + 256 * (n div 65536)"
    unfolding b_def using mod_mult_div_eq [of "n div 256" 256] d1 by simp
  have e3: "n div 65536 = c + 256 * d"
    unfolding c_def d_def using mod_mult_div_eq [of "n div 65536" 256] d2 by simp
  have "a + (256 * b + (65536 * c + 16777216 * d)) = n"
    using e1 e2 e3 by simp
  then show ?thesis
    using assms by (simp add: le_u32_def u32_le_def unat_of_nat a_def b_def c_def d_def)
qed

lemma char_of_byte: "char_of (unat (of_nat (of_char c) :: byte)) = c"
  by (simp add: unat_of_nat)

lemma spec_get_put_string:
  assumes "length str < 2 ^ 32"
  shows "spec_get_string (spec_put_string str @ rest) = (str, rest)"
proof -
  have "take 4 (spec_put_string str @ rest) = u32_le (length str)"
    by (simp add: spec_put_string_def u32_le_def)
  moreover have "drop 4 (spec_put_string str @ rest) = map (\<lambda>c. of_nat (of_char c)) str @ rest"
    by (simp add: spec_put_string_def u32_le_def)
  ultimately show ?thesis
    by (simp add: spec_get_string_def le_u32_u32_le [OF assms] comp_def char_of_byte)
qed

lemma spec_get_put_enum: "spec_get_enum (spec_put_enum v @ rest) = (v, rest)"
  by (simp add: spec_get_enum_def spec_put_enum_def)

lemma spec_prims_string:
  "length str < 2 ^ 32 \<Longrightarrow>
   get_string spec_stream_prims (put_string spec_stream_prims str @ rest) = (str, rest)"
  by (simp add: spec_stream_prims_def spec_get_put_string)

lemma spec_prims_enum:
  "get_enum spec_stream_prims (put_enum spec_stream_prims v @ rest) = (v, rest)"
  by (simp add: spec_stream_prims_def spec_get_put_enum)

lemma spec_get_enum_Cons: "spec_get_enum (b # rest) = (b, rest)"
  by (simp add: spec_get_enum_def)

subsection \<open>The round trip of each variant\<close>

lemma round_trip_Type:
  assumes type_name:
      "\<And>rest'. get_string io (put_string io (m_sTargetTypeName nodeDesc) @ rest') =
                (m_sTargetTypeName nodeDesc, rest')"
    and type_resolves: "FindTypeByName R (m_sTargetTypeName nodeDesc) = Some t"
  shows "(let r = NodeUserData_Type_Deserialize P io R
                    (s\<lparr>inout_stream_r := written NodeUserData_Type_Serialize P io nodeDesc @ rest\<rparr>)
          in fst r = EZ_SUCCESS \<and> inout_stream_r (snd r) = rest \<and> ezLog (snd r) = ezLog s \<and>
             m_Placed (inout_pAdditionalData (snd r)) =
               m_Placed (inout_pAdditionalData s) @
                 [(m_UserDataOffset (ref_node (snd r)), UserData_Type \<lparr>m_pType = Some t\<rparr>)])"
proof -
  have a: "FindTypeByName R (fst (get_string io (inout_stream_r
             (s\<lparr>inout_stream_r := put_string io (m_sTargetTypeName nodeDesc) @ rest\<rparr>)))) = Some t"
    by (simp add: type_name type_resolves)
  show ?thesis
    unfolding written_eqs Let_def Type_Deserialize_resolved [OF a]
    by (simp add: SetUserData_placed type_name)
qed

lemma round_trip_TypeAndProperty:
  assumes type_name:
      "\<And>rest'. get_string io (put_string io (m_sTargetTypeName nodeDesc) @ rest') =
                (m_sTargetTypeName nodeDesc, rest')"
    and member_name:
      "\<And>rest'. get_string io (put_string io (m_sTargetPropertyName nodeDesc) @ rest') =
                (m_sTargetPropertyName nodeDesc, rest')"
    and type_resolves: "FindTypeByName R (m_sTargetTypeName nodeDesc) = Some t"
    and member_resolves:
      "find (\<lambda>pProp. m_szPropertyName pProp = m_sTargetPropertyName nodeDesc)
         (if PropIsFunction then m_Functions t else m_Properties t) = Some p"
  shows "(let r = NodeUserData_TypeAndProperty_Deserialize PropIsFunction P io R
                    (s\<lparr>inout_stream_r := written NodeUserData_TypeAndProperty_Serialize P io nodeDesc @ rest\<rparr>)
          in fst r = EZ_SUCCESS \<and> inout_stream_r (snd r) = rest \<and> ezLog (snd r) = ezLog s \<and>
             m_Placed (inout_pAdditionalData (snd r)) =
               m_Placed (inout_pAdditionalData s) @
                 [(m_UserDataOffset (ref_node (snd r)), UserData_TypeAndProperty \<lparr>m_pType = Some t, m_pProperty = Some p\<rparr>)])"
proof -
  let ?ty = "put_string io (m_sTargetTypeName nodeDesc)"
  let ?me = "put_string io (m_sTargetPropertyName nodeDesc)"
  have loop: "ReadProperty_loop (m_sTargetPropertyName nodeDesc)
                (if PropIsFunction then m_Functions t else m_Properties t) = Some p"
    using member_resolves by (simp add: ReadProperty_loop_find eq_commute)
  have a: "FindTypeByName R (fst (get_string io (inout_stream_r
             (s\<lparr>inout_stream_r := ?ty @ ?me @ rest\<rparr>)))) = Some t"
    by (simp add: type_name type_resolves)
  have b: "ReadProperty_loop
             (fst (get_string io (snd (get_string io (inout_stream_r
                (s\<lparr>inout_stream_r := ?ty @ ?me @ rest\<rparr>))))))
             (if PropIsFunction then m_Functions t else m_Properties t) = Some p"
    using loop by (simp add: type_name member_name)
  show ?thesis
    unfolding written_eqs Let_def append_assoc TypeAndProperty_Deserialize_resolved [OF a b]
    by (simp add: SetUserData_placed type_name member_name)
qed

lemma round_trip_Comparison:
  assumes operator:
      "\<And>rest'. get_enum io (put_enum io (m_ComparisonOperator nodeDesc) @ rest') =
                (m_ComparisonOperator nodeDesc, rest')"
  shows "(let r = NodeUserData_Comparison_Deserialize P io R
                    (s\<lparr>inout_stream_r := written NodeUserData_Comparison_Serialize P io nodeDesc @ rest\<rparr>)
          in fst r = EZ_SUCCESS \<and> inout_stream_r (snd r) = rest \<and> ezLog (snd r) = ezLog s \<and>
             m_Placed (inout_pAdditionalData (snd r)) =
               m_Placed (inout_pAdditionalData s) @
                 [(m_UserDataOffset (ref_node (snd r)), UserData_Comparison
                     \<lparr>m_ComparisonOperator' = m_ComparisonOperator nodeDesc\<rparr>)])"
  unfolding written_eqs Let_def Comparison_Deserialize_eq
  by (simp add: SetUserData_placed operator)

lemma round_trip_StartCoroutine:
  assumes type_name:
      "\<And>rest'. get_string io (put_string io (m_sTargetTypeName nodeDesc) @ rest') =
                (m_sTargetTypeName nodeDesc, rest')"
    and creation_mode:
      "\<And>rest'. get_enum io (put_enum io (m_CoroutineCreationMode nodeDesc) @ rest') =
                (m_CoroutineCreationMode nodeDesc, rest')"
    and type_resolves: "FindTypeByName R (m_sTargetTypeName nodeDesc) = Some t"
  shows "(let r = NodeUserData_StartCoroutine_Deserialize P io R
                    (s\<lparr>inout_stream_r := written NodeUserData_StartCoroutine_Serialize P io nodeDesc @ rest\<rparr>)
          in fst r = EZ_SUCCESS \<and> inout_stream_r (snd r) = rest \<and> ezLog (snd r) = ezLog s \<and>
             m_Placed (inout_pAdditionalData (snd r)) =
               m_Placed (inout_pAdditionalData s) @
                 [(m_UserDataOffset (ref_node (snd r)), UserData_StartCoroutine
                     \<lparr>m_pType = Some t, m_CreationMode = m_CoroutineCreationMode nodeDesc\<rparr>)])"
proof -
  have a: "FindTypeByName R (fst (get_string io (inout_stream_r
             (s\<lparr>inout_stream_r := put_string io (m_sTargetTypeName nodeDesc)
                  @ put_enum io (m_CoroutineCreationMode nodeDesc) @ rest\<rparr>)))) = Some t"
    by (simp add: type_name type_resolves)
  show ?thesis
    unfolding written_eqs Let_def append_assoc StartCoroutine_Deserialize_resolved [OF a]
    by (simp add: SetUserData_placed type_name creation_mode)
qed

section \<open>The claims\<close>

subsection \<open>Round trip\<close>

text \<open>
  Claim C1. For each of the four payload variants, serialize the node description to a
  fresh stream and deserialize those bytes, whatever follows them in the stream. Each
  variant asks only for what it reads. Type: the stream primitives read back the type name
  as it was written and the registry knows it. TypeAndProperty: moreover the member name
  is read back and the type has a member of that name in the list that is searched
  (functions for \<^verbatim>\<open>Deserialize<true>\<close>, properties for \<^verbatim>\<open>Deserialize<false>\<close>).
  Comparison: the operator is read back; no name is involved. StartCoroutine: the type
  name and the creation mode are read back and the registry knows the type. Then
  deserialization succeeds, consumes exactly the written bytes, logs nothing, and the
  record it places at the node's offset holds the resolved equivalents of the
  description's fields: the registry's type for the type name, the first member of that
  name, the comparison operator, the creation mode.
\<close>

theorem round_trip:
  "((\<forall>rest'. get_string io (put_string io (m_sTargetTypeName nodeDesc) @ rest') =
                (m_sTargetTypeName nodeDesc, rest')) \<and>
    FindTypeByName R (m_sTargetTypeName nodeDesc) = Some t \<longrightarrow>
    (let r = NodeUserData_Type_Deserialize P io R
                    (s\<lparr>inout_stream_r := written NodeUserData_Type_Serialize P io nodeDesc @ rest\<rparr>)
          in fst r = EZ_SUCCESS \<and> inout_stream_r (snd r) = rest \<and> ezLog (snd r) = ezLog s \<and>
             m_Placed (inout_pAdditionalData (snd r)) =
               m_Placed (inout_pAdditionalData s) @
                 [(m_UserDataOffset (ref_node (snd r)), UserData_Type \<lparr>m_pType = Some t\<rparr>)])) \<and>
   ((\<forall>rest'. get_string io (put_string io (m_sTargetTypeName nodeDesc) @ rest') =
                (m_sTargetTypeName nodeDesc, rest')) \<and>
    (\<forall>rest'. get_string io (put_string io (m_sTargetPropertyName nodeDesc) @ rest') =
                (m_sTargetPropertyName nodeDesc, rest')) \<and>
    FindTypeByName R (m_sTargetTypeName nodeDesc) = Some t \<and>
    find (\<lambda>pProp. m_szPropertyName pProp = m_sTargetPropertyName nodeDesc)
         (if PropIsFunction then m_Functions t else m_Properties t) = Some p \<longrightarrow>
    (let r = NodeUserData_TypeAndProperty_Deserialize PropIsFunction P io R
                    (s\<lparr>inout_stream_r := written NodeUserData_TypeAndProperty_Serialize P io nodeDesc @ rest\<rparr>)
          in fst r = EZ_SUCCESS \<and> inout_stream_r (snd r) = rest \<and> ezLog (snd r) = ezLog s \<and>
             m_Placed (inout_pAdditionalData (snd r)) =
               m_Placed (inout_pAdditionalData s) @
                 [(m_UserDataOffset (ref_node (snd r)), UserData_TypeAndProperty \<lparr>m_pType = Some t, m_pProperty = Some p\<rparr>)])) \<and>
   ((\<forall>rest'. get_enum io (put_enum io (m_ComparisonOperator nodeDesc) @ rest') =
                (m_ComparisonOperator nodeDesc, rest')) \<longrightarrow>
    (let r = NodeUserData_Comparison_Deserialize P io R
                    (s\<lparr>inout_stream_r := written NodeUserData_Comparison_Serialize P io nodeDesc @ rest\<rparr>)
          in fst r = EZ_SUCCESS \<and> inout_stream_r (snd r) = rest \<and> ezLog (snd r) = ezLog s \<and>
             m_Placed (inout_pAdditionalData (snd r)) =
               m_Placed (inout_pAdditionalData s) @
                 [(m_UserDataOffset (ref_node (snd r)), UserData_Comparison
                     \<lparr>m_ComparisonOperator' = m_ComparisonOperator nodeDesc\<rparr>)])) \<and>
   ((\<forall>rest'. get_string io (put_string io (m_sTargetTypeName nodeDesc) @ rest') =
                (m_sTargetTypeName nodeDesc, rest')) \<and>
    (\<forall>rest'. get_enum io (put_enum io (m_CoroutineCreationMode nodeDesc) @ rest') =
                (m_CoroutineCreationMode nodeDesc, rest')) \<and>
    FindTypeByName R (m_sTargetTypeName nodeDesc) = Some t \<longrightarrow>
    (let r = NodeUserData_StartCoroutine_Deserialize P io R
                    (s\<lparr>inout_stream_r := written NodeUserData_StartCoroutine_Serialize P io nodeDesc @ rest\<rparr>)
          in fst r = EZ_SUCCESS \<and> inout_stream_r (snd r) = rest \<and> ezLog (snd r) = ezLog s \<and>
             m_Placed (inout_pAdditionalData (snd r)) =
               m_Placed (inout_pAdditionalData s) @
                 [(m_UserDataOffset (ref_node (snd r)), UserData_StartCoroutine
                     \<lparr>m_pType = Some t, m_CreationMode = m_CoroutineCreationMode nodeDesc\<rparr>)]))"
  apply (intro conjI impI; (elim conjE)?)
  subgoal by (rule round_trip_Type) simp_all
  subgoal by (rule round_trip_TypeAndProperty) simp_all
  subgoal by (rule round_trip_Comparison) simp_all
  subgoal by (rule round_trip_StartCoroutine) simp_all
  done

text \<open>
  The concrete stream primitives and the example registry: a Type and a StartCoroutine
  description without a property name, a Comparison description without any name, and
  the example description for TypeAndProperty, where of the two functions named \<^verbatim>\<open>Bar\<close>
  the first is the resolved member.
\<close>

theorem round_trip_witness:
  "(let r = NodeUserData_Type_Deserialize example_platform spec_stream_prims example_reflection
              ((example_reader [])\<lparr>inout_stream_r :=
                 written NodeUserData_Type_Serialize example_platform spec_stream_prims
                   (example_nodeDesc\<lparr>m_sTargetPropertyName := []\<rparr>) @ [7]\<rparr>)
    in fst r = EZ_SUCCESS \<and> inout_stream_r (snd r) = [7] \<and> ezLog (snd r) = [] \<and>
       m_Placed (inout_pAdditionalData (snd r)) =
         [(m_UserDataOffset (ref_node (snd r)), UserData_Type \<lparr>m_pType = Some example_Foo\<rparr>)]) \<and>
   (let r = NodeUserData_TypeAndProperty_Deserialize True example_platform spec_stream_prims example_reflection
              ((example_reader [])\<lparr>inout_stream_r :=
                 written NodeUserData_TypeAndProperty_Serialize example_platform spec_stream_prims
                   (example_nodeDesc) @ [7]\<rparr>)
    in fst r = EZ_SUCCESS \<and> inout_stream_r (snd r) = [7] \<and> ezLog (snd r) = [] \<and>
       m_Placed (inout_pAdditionalData (snd r)) =
         [(m_UserDataOffset (ref_node (snd r)), UserData_TypeAndProperty
             \<lparr>m_pType = Some example_Foo,
              m_pProperty = Some \<lparr>m_szPropertyName = ''Bar'', m_Identity = 21\<rparr>\<rparr>)]) \<and>
   (let r = NodeUserData_Comparison_Deserialize example_platform spec_stream_prims example_reflection
              ((example_reader [])\<lparr>inout_stream_r :=
                 written NodeUserData_Comparison_Serialize example_platform spec_stream_prims
                   (example_nodeDesc\<lparr>m_sTargetTypeName := [], m_sTargetPropertyName := []\<rparr>) @ [7]\<rparr>)
    in fst r = EZ_SUCCESS \<and> inout_stream_r (snd r) = [7] \<and> ezLog (snd r) = [] \<and>
       m_Placed (inout_pAdditionalData (snd r)) =
         [(m_UserDataOffset (ref_node (snd r)), UserData_Comparison \<lparr>m_ComparisonOperator' = 4\<rparr>)]) \<and>
   (let r = NodeUserData_StartCoroutine_Deserialize example_platform spec_stream_prims example_reflection
              ((example_reader [])\<lparr>inout_stream_r :=
                 written NodeUserData_StartCoroutine_Serialize example_platform spec_stream_prims
                   (example_nodeDesc\<lparr>m_sTargetPropertyName := []\<rparr>) @ [7]\<rparr>)
    in fst r = EZ_SUCCESS \<and> inout_stream_r (snd r) = [7] \<and> ezLog (snd r) = [] \<and>
       m_Placed (inout_pAdditionalData (snd r)) =
         [(m_UserDataOffset (ref_node (snd r)), UserData_StartCoroutine \<lparr>m_pType = Some example_Foo, m_CreationMode = 1\<rparr>)])"
proof -
  let ?p = "\<lparr>m_szPropertyName = ''Bar'', m_Identity = 21\<rparr>"
  have str: "\<forall>rest'. get_string spec_stream_prims (put_string spec_stream_prims ''Foo'' @ rest') =
                     (''Foo'', rest')"
    "\<forall>rest'. get_string spec_stream_prims (put_string spec_stream_prims ''Bar'' @ rest') =
                     (''Bar'', rest')"
    by (simp_all add: spec_prims_string)
  have enum: "\<forall>rest'. get_enum spec_stream_prims (put_enum spec_stream_prims v @ rest') = (v, rest')"
    for v
    by (simp add: spec_prims_enum)
  have ty: "FindTypeByName example_reflection ''Foo'' = Some example_Foo"
    by (simp add: example_reflection_def)
  have me: "find (\<lambda>pProp. m_szPropertyName pProp = ''Bar'') (m_Functions example_Foo) = Some ?p"
    by (simp add: example_Foo_def)
  show ?thesis
    using str enum ty me
      round_trip [where io = spec_stream_prims and R = example_reflection
        and P = example_platform and s = "example_reader []" and rest = "[7]"
        and t = example_Foo and p = ?p and PropIsFunction = True
        and nodeDesc = "example_nodeDesc\<lparr>m_sTargetPropertyName := []\<rparr>"]
      round_trip [where io = spec_stream_prims and R = example_reflection
        and P = example_platform and s = "example_reader []" and rest = "[7]"
        and t = example_Foo and p = ?p and PropIsFunction = True
        and nodeDesc = "example_nodeDesc"]
      round_trip [where io = spec_stream_prims and R = example_reflection
        and P = example_platform and s = "example_reader []" and rest = "[7]"
        and t = example_Foo and p = ?p and PropIsFunction = True
        and nodeDesc = "example_nodeDesc\<lparr>m_sTargetTypeName := [], m_sTargetPropertyName := []\<rparr>"]
    by (simp add: example_reader_def example_nodeDesc_def)
qed

subsection \<open>An unknown type\<close>

text \<open>
  Claim C2. If the type name read from the stream is not registered, then
  \<^verbatim>\<open>Deserialize\<close> of the Type, the TypeAndProperty (either instantiation) and the
  StartCoroutine variant returns \<^verbatim>\<open>EZ_FAILURE\<close>, the error logged is
  \<^verbatim>\<open>Unknown type '<name>'\<close>, and neither the arena (cursor and placed records) nor the node
  is changed.
\<close>

theorem unresolved_type_fails:
  assumes "FindTypeByName R (fst (get_string io (inout_stream_r s))) = None"
  shows "fst (NodeUserData_Type_Deserialize P io R s) = EZ_FAILURE \<and>
         inout_pAdditionalData (snd (NodeUserData_Type_Deserialize P io R s)) =
           inout_pAdditionalData s \<and>
         ref_node (snd (NodeUserData_Type_Deserialize P io R s)) = ref_node s \<and>
         ezLog (snd (NodeUserData_Type_Deserialize P io R s)) =
           ezLog s @ [''Unknown type '' @ quote @ fst (get_string io (inout_stream_r s)) @ quote] \<and>
         fst (NodeUserData_TypeAndProperty_Deserialize PropIsFunction P io R s) = EZ_FAILURE \<and>
         inout_pAdditionalData (snd (NodeUserData_TypeAndProperty_Deserialize PropIsFunction P io R s)) =
           inout_pAdditionalData s \<and>
         ref_node (snd (NodeUserData_TypeAndProperty_Deserialize PropIsFunction P io R s)) =
           ref_node s \<and>
         ezLog (snd (NodeUserData_TypeAndProperty_Deserialize PropIsFunction P io R s)) =
           ezLog s @ [''Unknown type '' @ quote @ fst (get_string io (inout_stream_r s)) @ quote] \<and>
         fst (NodeUserData_StartCoroutine_Deserialize P io R s) = EZ_FAILURE \<and>
         inout_pAdditionalData (snd (NodeUserData_StartCoroutine_Deserialize P io R s)) =
           inout_pAdditionalData s \<and>
         ref_node (snd (NodeUserData_StartCoroutine_Deserialize P io R s)) = ref_node s \<and>
         ezLog (snd (NodeUserData_StartCoroutine_Deserialize P io R s)) =
           ezLog s @ [''Unknown type '' @ quote @ fst (get_string io (inout_stream_r s)) @ quote]"
  by (simp add: Type_Deserialize_unresolved [OF assms]
      TypeAndProperty_Deserialize_unresolved [OF assms]
      StartCoroutine_Deserialize_unresolved [OF assms])

text \<open>
  A TypeAndProperty stream whose type name is \<^verbatim>\<open>Nonexistent\<close>, with the example registry.
\<close>

theorem unresolved_type_fails_witness:
  "fst (NodeUserData_TypeAndProperty_Deserialize True example_platform spec_stream_prims
          example_reflection
          (example_reader (spec_put_string ''Nonexistent'' @ spec_put_string ''Bar''))) = EZ_FAILURE \<and>
   inout_pAdditionalData (snd (NodeUserData_TypeAndProperty_Deserialize True example_platform
       spec_stream_prims example_reflection
       (example_reader (spec_put_string ''Nonexistent'' @ spec_put_string ''Bar'')))) =
     \<lparr>m_Cursor = 3, m_Placed = []\<rparr> \<and>
   ezLog (snd (NodeUserData_TypeAndProperty_Deserialize True example_platform
       spec_stream_prims example_reflection
       (example_reader (spec_put_string ''Nonexistent'' @ spec_put_string ''Bar'')))) =
     [''Unknown type '' @ quote @ ''Nonexistent'' @ quote]"
proof -
  have n: "FindTypeByName example_reflection
             (fst (get_string spec_stream_prims
                (inout_stream_r (example_reader
                   (spec_put_string ''Nonexistent'' @ spec_put_string ''Bar''))))) = None"
    by (simp add: example_reflection_def spec_stream_prims_def example_reader_def
        spec_get_put_string)
  show ?thesis
    using unresolved_type_fails [OF n, where P = example_platform and PropIsFunction = True]
    by (simp add: example_reader_def spec_stream_prims_def spec_get_put_string)
qed

subsection \<open>An unknown member\<close>

text \<open>
  Claim C3. \<^verbatim>\<open>ReadProperty\<close> takes the first element whose name equals the name read,
  and fails when there is none (lemmas \<open>ReadProperty_loop_first\<close> and
  \<open>ReadProperty_loop_None\<close>). The error message, however, does not tell a function from
  a property. Its first word is \<^verbatim>\<open>Function\<close> when
  \<^verbatim>\<open>std::is_same<T, ezAbstractFunctionProperty>::value\<close> holds, and \<^verbatim>\<open>T\<close> is the element
  type of the array, a pointer type: for \<^verbatim>\<open>Deserialize<true>\<close>, which searches the
  functions, the message of a failed search starts with \<^verbatim>\<open>Property\<close>, as it does for
  \<^verbatim>\<open>Deserialize<false>\<close>.
\<close>

theorem member_error_names_property:
  assumes "is_pointer_type (FunctionsElementType R)"
    and "FindTypeByName R (fst (get_string io (inout_stream_r s))) = Some t"
    and "ReadProperty_loop (fst (get_string io (snd (get_string io (inout_stream_r s)))))
           (m_Functions t) = None"
  shows "fst (NodeUserData_TypeAndProperty_Deserialize True P io R s) = EZ_FAILURE \<and>
         ezLog (snd (NodeUserData_TypeAndProperty_Deserialize True P io R s)) =
           ezLog s @
             [''Property '' @ quote
              @ fst (get_string io (snd (get_string io (inout_stream_r s)))) @ quote
              @ '' not found on type '' @ quote @ m_szTypeName t @ quote]"
proof -
  have "FunctionsElementType R \<noteq> Class ''ezAbstractFunctionProperty''"
    using assms(1) by (cases "FunctionsElementType R") simp_all
  moreover have "ReadProperty_loop (fst (get_string io (snd (get_string io (inout_stream_r s)))))
           (if True then m_Functions t else m_Properties t) = None"
    using assms(3) by simp
  ultimately show ?thesis
    by (simp add: TypeAndProperty_Deserialize_member_unresolved [OF assms(2)])
qed

text \<open>
  \<^verbatim>\<open>Deserialize<true>\<close> on the type name \<^verbatim>\<open>Foo\<close> and the member name \<^verbatim>\<open>DoesNotExist\<close>:
  no function of \<^verbatim>\<open>Foo\<close> has that name.
\<close>

theorem member_error_names_property_witness:
  "fst (NodeUserData_TypeAndProperty_Deserialize True example_platform spec_stream_prims
          example_reflection
          (example_reader (spec_put_string ''Foo'' @ spec_put_string ''DoesNotExist''))) = EZ_FAILURE \<and>
   ezLog (snd (NodeUserData_TypeAndProperty_Deserialize True example_platform spec_stream_prims
          example_reflection
          (example_reader (spec_put_string ''Foo'' @ spec_put_string ''DoesNotExist'')))) =
     [''Property '' @ quote @ ''DoesNotExist'' @ quote @ '' not found on type ''
      @ quote @ ''Foo'' @ quote]"
proof -
  let ?s = "example_reader (spec_put_string ''Foo'' @ spec_put_string ''DoesNotExist'')"
  have g1: "get_string spec_stream_prims (inout_stream_r ?s) =
              (''Foo'', spec_put_string ''DoesNotExist'')"
    by (simp add: example_reader_def spec_stream_prims_def spec_get_put_string)
  have g2: "get_string spec_stream_prims (spec_put_string ''DoesNotExist'') = (''DoesNotExist'', [])"
    using spec_get_put_string [of "''DoesNotExist''" "[]"] by (simp add: spec_stream_prims_def)
  have p: "is_pointer_type (FunctionsElementType example_reflection)"
    by (simp add: example_reflection_def)
  have t: "FindTypeByName example_reflection (fst (get_string spec_stream_prims (inout_stream_r ?s)))
             = Some example_Foo"
    by (simp add: g1 example_reflection_def)
  have m: "ReadProperty_loop
             (fst (get_string spec_stream_prims (snd (get_string spec_stream_prims (inout_stream_r ?s)))))
             (m_Functions example_Foo) = None"
    by (simp add: g1 g2 example_Foo_def)
  show ?thesis
    using member_error_names_property [OF p t m, of example_platform]
    by (simp add: g1 g2 example_Foo_def) (simp add: example_reader_def)
qed

subsection \<open>One table entry per node type\<close>

text \<open>
  Claim C4. The table has 37 entries, and the header's \<^verbatim>\<open>static_assert\<close> holds exactly
  when \<^verbatim>\<open>Type::Count\<close> is 37: with one entry more or less the header is not compiled. It
  holds for the node types as they are listed above. The values of the node types are the
  indices of the table: each index is the value of one node type and no two node types
  share a value. \<^verbatim>\<open>GetUserDataContext\<close> returns for a node type the entry at the index
  of its value, by one list access; an index outside the table fails the assertion, and
  only such an index does. The five node types with a payload have the entries of their
  variants.
\<close>

theorem table_has_one_entry_per_type:
  "static_assert_table Type_Count \<and>
   static_assert_table Count = (Count = 37) \<and>
   range Type_value = {0..<Type_Count} \<and>
   inj Type_value \<and>
   GetUserDataContext (Type_value t) = Inr (s_TypeToUserDataContexts ! nat (Type_value t)) \<and>
   (GetUserDataContext n = Inl (Assertion_Failed ''Out of bounds access'')) =
     (n < 0 \<or> Type_Count \<le> n) \<and>
   GetUserDataContext (Type_value ReflectedFunction) =
     Inr \<lparr>m_SerializeFunc = Some NodeUserData_TypeAndProperty_Serialize,
          m_DeserializeFunc = Some (NodeUserData_TypeAndProperty_Deserialize True),
          m_ToStringFunc = Some NodeUserData_TypeAndProperty_ToString\<rparr> \<and>
   GetUserDataContext (Type_value InplaceCoroutine) =
     Inr \<lparr>m_SerializeFunc = Some NodeUserData_TypeAndProperty_Serialize,
          m_DeserializeFunc = Some (NodeUserData_TypeAndProperty_Deserialize True),
          m_ToStringFunc = Some NodeUserData_TypeAndProperty_ToString\<rparr> \<and>
   GetUserDataContext (Type_value Builtin_Compare) =
     Inr \<lparr>m_SerializeFunc = Some NodeUserData_Comparison_Serialize,
          m_DeserializeFunc = Some NodeUserData_Comparison_Deserialize,
          m_ToStringFunc = Some NodeUserData_Comparison_ToString\<rparr> \<and>
   GetUserDataContext (Type_value Builtin_TryGetComponentOfBaseType) =
     Inr \<lparr>m_SerializeFunc = Some NodeUserData_Type_Serialize,
          m_DeserializeFunc = Some NodeUserData_Type_Deserialize,
          m_ToStringFunc = Some NodeUserData_Type_ToString\<rparr> \<and>
   GetUserDataContext (Type_value Builtin_StartCoroutine) =
     Inr \<lparr>m_SerializeFunc = Some NodeUserData_StartCoroutine_Serialize,
          m_DeserializeFunc = Some NodeUserData_StartCoroutine_Deserialize,
          m_ToStringFunc = Some NodeUserData_StartCoroutine_ToString\<rparr>"
proof -
  have lookup: "GetUserDataContext (Type_value u) =
                  Inr (s_TypeToUserDataContexts ! nat (Type_value u))" for u
    using Type_value_bounds [of u]
    by (simp add: GetUserDataContext_def length_s_TypeToUserDataContexts)
  have bounds: "(GetUserDataContext n = Inl (Assertion_Failed ''Out of bounds access'')) =
                  (n < 0 \<or> Type_Count \<le> n)"
    by (auto simp: GetUserDataContext_def length_s_TypeToUserDataContexts Type_Count_def)
  have count: "static_assert_table Type_Count" "static_assert_table Count = (Count = 37)"
    by (auto simp: static_assert_table_def length_s_TypeToUserDataContexts Type_Count_def)
  show ?thesis
    unfolding lookup payload_entries
    using count bounds Type_value_range Type_value_inj
    by simp
qed

subsection \<open>Node types without payload\<close>

text \<open>
  Claim C5, amended. For a node type without payload the table entry is empty: the three
  function pointers are null. The entry holds no operation that does nothing; a call
  through any of its three members is a call through a null pointer. That nothing is
  written, read or appended for such a node type is up to the caller, who has to test the
  pointer before the call.
\<close>

theorem no_payload_entry_is_null:
  assumes "t \<notin> {ReflectedFunction, InplaceCoroutine, Builtin_Compare,
                 Builtin_TryGetComponentOfBaseType, Builtin_StartCoroutine}"
  shows "GetUserDataContext (Type_value t) =
           Inr \<lparr>m_SerializeFunc = None, m_DeserializeFunc = None, m_ToStringFunc = None\<rparr> \<and>
         call_SerializeFunc (s_TypeToUserDataContexts ! nat (Type_value t)) P io nodeDesc w =
           Inl Null_Function_Call \<and>
         call_DeserializeFunc (s_TypeToUserDataContexts ! nat (Type_value t)) P io R s =
           Inl Null_Function_Call \<and>
         call_ToStringFunc (s_TypeToUserDataContexts ! nat (Type_value t)) R nodeDesc out_sResult =
           Inl Null_Function_Call"
  using Type_value_bounds [of t]
  by (simp add: no_payload_entry [OF assms] GetUserDataContext_def
      length_s_TypeToUserDataContexts call_SerializeFunc_def call_DeserializeFunc_def
      call_ToStringFunc_def)

text \<open>
  The entry of \<^verbatim>\<open>Builtin_Add\<close>.
\<close>

theorem no_payload_entry_is_null_witness:
  "GetUserDataContext (Type_value Builtin_Add) =
     Inr \<lparr>m_SerializeFunc = None, m_DeserializeFunc = None, m_ToStringFunc = None\<rparr> \<and>
   call_SerializeFunc (s_TypeToUserDataContexts ! nat (Type_value Builtin_Add))
     example_platform spec_stream_prims example_nodeDesc fresh_writer = Inl Null_Function_Call \<and>
   call_DeserializeFunc (s_TypeToUserDataContexts ! nat (Type_value Builtin_Add))
     example_platform spec_stream_prims example_reflection (example_reader []) =
     Inl Null_Function_Call \<and>
   call_ToStringFunc (s_TypeToUserDataContexts ! nat (Type_value Builtin_Add))
     example_reflection example_nodeDesc [] = Inl Null_Function_Call"
proof -
  have h: "Builtin_Add \<notin> {ReflectedFunction, InplaceCoroutine, Builtin_Compare,
                 Builtin_TryGetComponentOfBaseType, Builtin_StartCoroutine}"
    by simp
  show ?thesis
    by (rule no_payload_entry_is_null [OF h])
qed

text \<open>
  The claim as the specification words it, that the entry is a triple of operations that
  do nothing, fails for the entry of \<^verbatim>\<open>Invalid\<close>: the serialize member cannot be called.
\<close>

theorem no_payload_entry_not_noops:
  "\<not> entry_of_noops (s_TypeToUserDataContexts ! nat (Type_value Invalid))
       example_platform spec_stream_prims example_reflection example_nodeDesc
       fresh_writer (example_reader []) []"
  by (simp add: entry_of_noops_def call_SerializeFunc_def s_TypeToUserDataContexts_def)

subsection \<open>Reported size and alignment\<close>

text \<open>
  Claim C6. Each \<^verbatim>\<open>Serialize\<close> reports \<^verbatim>\<open>sizeof\<close> and \<^verbatim>\<open>EZ_ALIGNMENT_OF\<close> of its own
  struct (lemma \<open>Serialize_reports_sizeof\<close>). The sizes are not the same on every
  platform. For an enum storage of one, two or four bytes, a build for 64-bit pointers
  passes the three \<^verbatim>\<open>static_assert\<close>s and the sizes reported are 8, 16 and 16. A build for
  32-bit pointers gives 8 for Type and 16 for TypeAndProperty, which declare a padding
  member, but 12 for StartCoroutine, which declares none: the size reported is not 16 and
  \<^verbatim>\<open>static_assert(sizeof(NodeUserData_StartCoroutine) == 16)\<close> does not hold.
\<close>

theorem StartCoroutine_size_on_32bit:
  assumes "e \<in> {1, 2, 4}"
  shows "static_assert_sizes (compiled_platform False e) \<and>
         out_uiSize (snd (NodeUserData_Type_Serialize (compiled_platform False e) io nodeDesc s)) = 8 \<and>
         out_uiSize (snd (NodeUserData_TypeAndProperty_Serialize (compiled_platform False e)
                            io nodeDesc s)) = 16 \<and>
         out_uiSize (snd (NodeUserData_StartCoroutine_Serialize (compiled_platform False e)
                            io nodeDesc s)) = 16 \<and>
         out_uiSize (snd (NodeUserData_Type_Serialize (compiled_platform True e) io nodeDesc s)) = 8 \<and>
         out_uiSize (snd (NodeUserData_TypeAndProperty_Serialize (compiled_platform True e)
                            io nodeDesc s)) = 16 \<and>
         out_uiSize (snd (NodeUserData_StartCoroutine_Serialize (compiled_platform True e)
                            io nodeDesc s)) = 12 \<and>
         \<not> static_assert_sizes (compiled_platform True e)"
  unfolding static_assert_sizes_def
  by (simp add: Serialize_reports_sizeof compiled_sizes_64 [OF assms] compiled_sizes_32 [OF assms])

text \<open>
  The enum storage of one byte.
\<close>

theorem StartCoroutine_size_on_32bit_witness:
  "static_assert_sizes (compiled_platform False 1) \<and>
   out_uiSize (snd (NodeUserData_StartCoroutine_Serialize (compiled_platform False 1)
                      spec_stream_prims example_nodeDesc fresh_writer)) = 16 \<and>
   out_uiSize (snd (NodeUserData_Type_Serialize (compiled_platform True 1)
                      spec_stream_prims example_nodeDesc fresh_writer)) = 8 \<and>
   out_uiSize (snd (NodeUserData_TypeAndProperty_Serialize (compiled_platform True 1)
                      spec_stream_prims example_nodeDesc fresh_writer)) = 16 \<and>
   out_uiSize (snd (NodeUserData_StartCoroutine_Serialize (compiled_platform True 1)
                      spec_stream_prims example_nodeDesc fresh_writer)) = 12 \<and>
   \<not> static_assert_sizes (compiled_platform True 1)"
proof -
  have h: "(1::nat) \<in> {1, 2, 4}"
    by simp
  show ?thesis
    using StartCoroutine_size_on_32bit [OF h, of spec_stream_prims example_nodeDesc fresh_writer]
    by simp
qed

subsection \<open>Additive stream layouts\<close>

text \<open>
  Claim C7. What \<^verbatim>\<open>NodeUserData_TypeAndProperty::Serialize\<close> leaves in the stream is what
  \<^verbatim>\<open>NodeUserData_Type::Serialize\<close> leaves there, followed by the property name; for
  \<^verbatim>\<open>NodeUserData_StartCoroutine::Serialize\<close> it is followed by the creation mode. This
  holds for a stream with any content, and so for the bytes written to an empty one.
\<close>

theorem Serialize_additive_layout:
  "inout_stream_w (snd (NodeUserData_TypeAndProperty_Serialize P io nodeDesc s)) =
     inout_stream_w (snd (NodeUserData_Type_Serialize P io nodeDesc s))
       @ put_string io (m_sTargetPropertyName nodeDesc) \<and>
   inout_stream_w (snd (NodeUserData_StartCoroutine_Serialize P io nodeDesc s)) =
     inout_stream_w (snd (NodeUserData_Type_Serialize P io nodeDesc s))
       @ put_enum io (m_CoroutineCreationMode nodeDesc) \<and>
   written NodeUserData_Type_Serialize P io nodeDesc = put_string io (m_sTargetTypeName nodeDesc) \<and>
   written NodeUserData_TypeAndProperty_Serialize P io nodeDesc =
     written NodeUserData_Type_Serialize P io nodeDesc
       @ put_string io (m_sTargetPropertyName nodeDesc) \<and>
   written NodeUserData_StartCoroutine_Serialize P io nodeDesc =
     written NodeUserData_Type_Serialize P io nodeDesc
       @ put_enum io (m_CoroutineCreationMode nodeDesc)"
  by (simp add: written_def fresh_writer_def Type_Serialize_eq TypeAndProperty_Serialize_eq
      StartCoroutine_Serialize_eq)

subsection \<open>Labels\<close>

text \<open>
  Claim C8. \<^verbatim>\<open>ToString\<close> returns a string and nothing else. For the type name \<^verbatim>\<open>Foo\<close>
  and the property name \<^verbatim>\<open>Bar\<close> the TypeAndProperty label is \<^verbatim>\<open>Foo.Bar\<close>. In general the
  Type label is the type name; the TypeAndProperty label is the type name, then a dot and
  the property name unless that name is empty; the Comparison label is a space and the
  operator's name; the StartCoroutine label is the type name, a space and the creation
  mode's name. An empty type name adds nothing.
\<close>

theorem ToString_labels:
  "NodeUserData_TypeAndProperty_ToString R
     (nodeDesc\<lparr>m_sTargetTypeName := ''Foo'', m_sTargetPropertyName := ''Bar''\<rparr>) [] = ''Foo.Bar'' \<and>
   NodeUserData_Type_ToString R nodeDesc out_sResult = out_sResult @ m_sTargetTypeName nodeDesc \<and>
   NodeUserData_TypeAndProperty_ToString R nodeDesc out_sResult =
     out_sResult @ m_sTargetTypeName nodeDesc
       @ (if m_sTargetPropertyName nodeDesc = [] then []
          else ''.'' @ m_sTargetPropertyName nodeDesc) \<and>
   NodeUserData_Comparison_ToString R nodeDesc out_sResult =
     out_sResult @ '' '' @ ComparisonOperatorToString R (m_ComparisonOperator nodeDesc) \<and>
   NodeUserData_StartCoroutine_ToString R nodeDesc out_sResult =
     out_sResult @ m_sTargetTypeName nodeDesc
       @ '' '' @ CoroutineCreationModeToString R (m_CoroutineCreationMode nodeDesc)"
  by (simp add: NodeUserData_TypeAndProperty_ToString_def NodeUserData_Type_ToString_def
      NodeUserData_Comparison_ToString_def NodeUserData_StartCoroutine_ToString_def)

subsection \<open>Serialize cannot fail\<close>

text \<open>
  Claim C9. Each of the four \<^verbatim>\<open>Serialize\<close> functions returns \<^verbatim>\<open>EZ_SUCCESS\<close> for every
  description, platform and stream, and keeps what the stream held before. On the reading
  side a failure is a name that does not resolve: \<^verbatim>\<open>Deserialize\<close> of Type and of
  StartCoroutine fails exactly when the type is unknown, of TypeAndProperty exactly when
  the type is unknown or no member of the list has the name, and of Comparison never.
\<close>

theorem Serialize_always_succeeds:
  "fst (NodeUserData_Type_Serialize P io nodeDesc w) = EZ_SUCCESS \<and>
   fst (NodeUserData_TypeAndProperty_Serialize P io nodeDesc w) = EZ_SUCCESS \<and>
   fst (NodeUserData_Comparison_Serialize P io nodeDesc w) = EZ_SUCCESS \<and>
   fst (NodeUserData_StartCoroutine_Serialize P io nodeDesc w) = EZ_SUCCESS \<and>
   take (length (inout_stream_w w))
     (inout_stream_w (snd (NodeUserData_Type_Serialize P io nodeDesc w))) = inout_stream_w w \<and>
   take (length (inout_stream_w w))
     (inout_stream_w (snd (NodeUserData_TypeAndProperty_Serialize P io nodeDesc w))) = inout_stream_w w \<and>
   take (length (inout_stream_w w))
     (inout_stream_w (snd (NodeUserData_Comparison_Serialize P io nodeDesc w))) = inout_stream_w w \<and>
   take (length (inout_stream_w w))
     (inout_stream_w (snd (NodeUserData_StartCoroutine_Serialize P io nodeDesc w))) = inout_stream_w w \<and>
   (fst (NodeUserData_Type_Deserialize P io R s) = EZ_FAILURE) =
     (FindTypeByName R (fst (get_string io (inout_stream_r s))) = None) \<and>
   (fst (NodeUserData_TypeAndProperty_Deserialize PropIsFunction P io R s) = EZ_FAILURE) =
     (case FindTypeByName R (fst (get_string io (inout_stream_r s))) of
        None \<Rightarrow> True
      | Some t \<Rightarrow>
          ReadProperty_loop (fst (get_string io (snd (get_string io (inout_stream_r s)))))
            (if PropIsFunction then m_Functions t else m_Properties t) = None) \<and>
   fst (NodeUserData_Comparison_Deserialize P io R s) = EZ_SUCCESS \<and>
   (fst (NodeUserData_StartCoroutine_Deserialize P io R s) = EZ_FAILURE) =
     (FindTypeByName R (fst (get_string io (inout_stream_r s))) = None)"
  unfolding Type_Deserialize_fails_iff StartCoroutine_Deserialize_fails_iff
    TypeAndProperty_Deserialize_fails_iff
  by (simp add: Type_Serialize_eq TypeAndProperty_Serialize_eq Comparison_Serialize_eq
      StartCoroutine_Serialize_eq Comparison_Deserialize_eq)

subsection \<open>Scalars are read without validation\<close>

text \<open>
  Claim C10. \<^verbatim>\<open>NodeUserData_Comparison::Deserialize\<close> succeeds on every stream, logs
  nothing, and places a record that holds the scalar exactly as the stream primitive read
  it. \<^verbatim>\<open>NodeUserData_StartCoroutine::Deserialize\<close> does the same with the creation mode
  once the type is resolved.
\<close>

theorem scalar_read_without_validation:
  "fst (NodeUserData_Comparison_Deserialize P io R s) = EZ_SUCCESS \<and>
   ezLog (snd (NodeUserData_Comparison_Deserialize P io R s)) = ezLog s \<and>
   m_Placed (inout_pAdditionalData (snd (NodeUserData_Comparison_Deserialize P io R s))) =
     m_Placed (inout_pAdditionalData s) @
       [(m_UserDataOffset (ref_node (snd (NodeUserData_Comparison_Deserialize P io R s))),
         UserData_Comparison \<lparr>m_ComparisonOperator' = fst (get_enum io (inout_stream_r s))\<rparr>)] \<and>
   (FindTypeByName R (fst (get_string io (inout_stream_r s))) = Some t \<longrightarrow>
      fst (NodeUserData_StartCoroutine_Deserialize P io R s) = EZ_SUCCESS \<and>
      ezLog (snd (NodeUserData_StartCoroutine_Deserialize P io R s)) = ezLog s \<and>
      m_Placed (inout_pAdditionalData (snd (NodeUserData_StartCoroutine_Deserialize P io R s))) =
        m_Placed (inout_pAdditionalData s) @
          [(m_UserDataOffset (ref_node (snd (NodeUserData_StartCoroutine_Deserialize P io R s))),
            UserData_StartCoroutine
              \<lparr>m_pType = Some t,
               m_CreationMode = fst (get_enum io (snd (get_string io (inout_stream_r s))))\<rparr>)])"
  by (simp add: Comparison_Deserialize_eq StartCoroutine_Deserialize_resolved SetUserData_placed)

text \<open>
  The scalar 255, the value of no enumerator, is accepted by both.
\<close>

theorem scalar_read_without_validation_witness:
  "fst (NodeUserData_Comparison_Deserialize example_platform spec_stream_prims example_reflection
          (example_reader [255])) = EZ_SUCCESS \<and>
   m_Placed (inout_pAdditionalData (snd (NodeUserData_Comparison_Deserialize example_platform
       spec_stream_prims example_reflection (example_reader [255])))) =
     [(3, UserData_Comparison \<lparr>m_ComparisonOperator' = 255\<rparr>)] \<and>
   fst (NodeUserData_StartCoroutine_Deserialize example_platform spec_stream_prims
          example_reflection (example_reader (spec_put_string ''Foo'' @ [255]))) = EZ_SUCCESS \<and>
   m_Placed (inout_pAdditionalData (snd (NodeUserData_StartCoroutine_Deserialize example_platform
       spec_stream_prims example_reflection (example_reader (spec_put_string ''Foo'' @ [255]))))) =
     [(8, UserData_StartCoroutine \<lparr>m_pType = Some example_Foo, m_CreationMode = 255\<rparr>)]"
proof -
  have t: "FindTypeByName example_reflection
             (fst (get_string spec_stream_prims
                (inout_stream_r (example_reader (spec_put_string ''Foo'' @ [255]))))) = Some example_Foo"
    by (simp add: example_reflection_def spec_stream_prims_def example_reader_def spec_get_put_string)
  have o1: "m_UserDataOffset (ref_node (snd (NodeUserData_Comparison_Deserialize example_platform
       spec_stream_prims example_reflection (example_reader [255])))) = 3"
    by (simp add: Comparison_Deserialize_eq SetUserData_def example_reader_def example_platform_def
        align_up_def)
  have o2: "m_UserDataOffset (ref_node (snd (NodeUserData_StartCoroutine_Deserialize example_platform
       spec_stream_prims example_reflection (example_reader (spec_put_string ''Foo'' @ [255]))))) = 8"
    unfolding StartCoroutine_Deserialize_resolved [OF t]
    by (simp add: SetUserData_def example_reader_def example_platform_def align_up_def)
  show ?thesis
    using scalar_read_without_validation [of example_platform spec_stream_prims example_reflection
        "example_reader [255]"]
      scalar_read_without_validation [of example_platform spec_stream_prims example_reflection
        "example_reader (spec_put_string ''Foo'' @ [255])" example_Foo] t o1 o2
    by (simp add: example_reader_def spec_stream_prims_def spec_get_enum_Cons spec_get_put_string)
qed

end
